theory Spec2Isabelle
  imports Complex_Main
begin

section \<open>The particle field of script.js\<close>

text \<open>
  The page script keeps a field of particles on a canvas element. A JavaScript number is
  modelled as the real number it denotes, and the arithmetic of \<open>update\<close> and of
  \<open>drawConnections\<close> rounds every result to binary64, as the language does. The canvas
  attributes \<open>width\<close> and \<open>height\<close> are natural numbers, as the \<open>unsigned long\<close>
  attributes of a canvas element are.

  A particle keeps a reference to the canvas it was built for, and the particle system keeps
  a reference to the same canvas object; a resize assigns to the attributes of that object.
  The canvas objects therefore live in a store indexed by addresses, and particles and the
  system hold addresses.
\<close>

subsection \<open>Data\<close>

type_synonym ref = nat

datatype error = TypeError

record canvas =
  width :: nat
  height :: nat

text \<open>
  The fields of a \<open>Particle\<close>: \<open>pcanvas\<close> is \<open>this.canvas\<close>, \<open>px\<close> and \<open>py\<close> are
  \<open>this.x\<close> and \<open>this.y\<close>, \<open>psize\<close> is \<open>this.size\<close>; \<open>color\<close> is the property that
  only \<open>updateColor\<close> sets.
\<close>

record particle =
  pcanvas :: ref
  px :: real
  py :: real
  psize :: real
  speedX :: real
  speedY :: real
  opacity :: real
  color :: "string option"

text \<open>
  What reaches the 2D context: \<open>clearRect\<close>, a filled arc (centre, radius, opacity of the
  fill style) and a stroked segment (both end points, opacity of the stroke style).
\<close>

datatype draw_op =
    ClearRect real real real real
  | FillArc real real real real
  | StrokeLine real real real real real

text \<open>
  The environment of the script: the store of canvas objects, the elements of the document
  by identifier, the size of the window, and the values \<open>Math.random\<close> returns, in the
  order of the calls.
\<close>

record world =
  store :: "ref \<Rightarrow> canvas"
  document :: "string \<rightharpoonup> ref"
  innerWidth :: nat
  innerHeight :: nat
  random_source :: "nat \<Rightarrow> real"
  random_used :: nat

record ParticleSystem =
  canvas_of :: ref
  ctx :: "draw_op list"
  particles :: "particle list"
  particleCount :: nat

subsection \<open>Numbers\<close>

text \<open>
  A Number is an IEEE 754 binary64 value, and \<open>+\<close>, \<open>-\<close>, \<open>*\<close>, \<open>/\<close> and
  \<open>Math.sqrt\<close> return the exact result rounded to the nearest binary64 value, ties to the
  even significand. \<open>rne\<close> rounds a real to the nearest integer, ties to even.
  \<open>exponent x\<close> is the binary exponent of \<open>x\<close>, not below \<open>emin\<close>, where the
  subnormal numbers begin; \<open>quantum x\<close> is the distance between neighbouring binary64
  values at \<open>x\<close> (52 fraction bits), and \<open>binary64 x\<close> is the multiple of that quantum
  nearest to \<open>x\<close>. \<open>Math.sqrt\<close> is taken as the correctly rounded square root of
  IEEE 754. The fields of a particle hold Numbers, that is, reals \<open>x\<close> with
  \<open>binary64 x = x\<close>; the properties below do not need that assumption and are stated for
  all reals. Infinite and undefined results are not modelled: on a canvas every value stays
  far below \<open>2 ^ 1024\<close>, where binary64 overflows.
\<close>

definition rne :: "real \<Rightarrow> int" where
  "rne y =
     (let f = \<lfloor>y\<rfloor>; r = y - of_int f
      in if r < 1 / 2 then f else if 1 / 2 < r then f + 1 else if even f then f else f + 1)"

definition emin :: int where
  "emin = - 1022"

definition exponent :: "real \<Rightarrow> int" where
  "exponent x = (if x = 0 then emin else max \<lfloor>log 2 \<bar>x\<bar>\<rfloor> emin)"

definition quantum :: "real \<Rightarrow> real" where
  "quantum x = 2 powi (exponent x - 52)"

definition binary64 :: "real \<Rightarrow> real" where
  "binary64 x = of_int (rne (x / quantum x)) * quantum x"

subsection \<open>Particle\<close>

definition Math_random :: "world \<Rightarrow> real \<times> world" where
  "Math_random w = (random_source w (random_used w), w\<lparr>random_used := Suc (random_used w)\<rparr>)"

text \<open>
  \<open>reset\<close> draws six random numbers, in the order of its assignments. Its products and
  sums are written exactly.
\<close>

definition reset :: "particle \<Rightarrow> world \<Rightarrow> particle \<times> world" where
  "reset p w =
     (let (r1, w1) = Math_random w;
          p1 = p\<lparr>px := r1 * real (width (store w1 (pcanvas p)))\<rparr>;
          (r2, w2) = Math_random w1;
          p2 = p1\<lparr>py := r2 * real (height (store w2 (pcanvas p1)))\<rparr>;
          (r3, w3) = Math_random w2;
          p3 = p2\<lparr>psize := r3 * 3 + 1\<rparr>;
          (r4, w4) = Math_random w3;
          p4 = p3\<lparr>speedX := r4 * 0.5 - 0.25\<rparr>;
          (r5, w5) = Math_random w4;
          p5 = p4\<lparr>speedY := r5 * 0.5 - 0.25\<rparr>;
          (r6, w6) = Math_random w5;
          p6 = p5\<lparr>opacity := r6 * 0.5 + 0.2\<rparr>
      in (p6, w6))"

text \<open>
  The constructor stores the canvas and calls \<open>reset\<close>, which assigns the six numeric
  fields; before that they have no value, and neither has \<open>color\<close>.
\<close>

definition new_Particle :: "ref \<Rightarrow> world \<Rightarrow> particle \<times> world" where
  "new_Particle c w =
     reset \<lparr>pcanvas = c, px = 0, py = 0, psize = 0, speedX = 0, speedY = 0, opacity = 0,
            color = None\<rparr> w"

text \<open>
  \<open>update\<close> adds the velocity in binary64 and reads the canvas through the particle's
  reference at the time of the call: four tests in sequence, each on the value the previous
  one left.
\<close>

definition update :: "(ref \<Rightarrow> canvas) \<Rightarrow> particle \<Rightarrow> particle" where
  "update st p =
     (let p1 = p\<lparr>px := binary64 (px p + speedX p)\<rparr>;
          p2 = p1\<lparr>py := binary64 (py p1 + speedY p1)\<rparr>;
          p3 = (if px p2 > real (width (st (pcanvas p2))) then p2\<lparr>px := 0\<rparr> else p2);
          p4 = (if px p3 < 0 then p3\<lparr>px := real (width (st (pcanvas p3)))\<rparr> else p3);
          p5 = (if py p4 > real (height (st (pcanvas p4))) then p4\<lparr>py := 0\<rparr> else p4);
          p6 = (if py p5 < 0 then p5\<lparr>py := real (height (st (pcanvas p5)))\<rparr> else p5)
      in p6)"

definition draw :: "particle \<Rightarrow> draw_op" where
  "draw p = FillArc (px p) (py p) (psize p) (opacity p)"

subsection \<open>ParticleSystem\<close>

text \<open>
  \<open>resizeCanvas\<close> assigns the window's size to the two attributes of the canvas object
  the system refers to. Nothing else is written.
\<close>

definition resizeCanvas :: "world \<Rightarrow> ParticleSystem \<Rightarrow> world" where
  "resizeCanvas w s =
     (let w1 = w\<lparr>store := (store w)(canvas_of s :=
                  (store w (canvas_of s))\<lparr>width := innerWidth w\<rparr>)\<rparr>;
          w2 = w1\<lparr>store := (store w1)(canvas_of s :=
                  (store w1 (canvas_of s))\<lparr>height := innerHeight w1\<rparr>)\<rparr>
      in w2)"

text \<open>The loop of \<open>init\<close>: \<open>for (let i = 0; i < this.particleCount; i++)\<close>.\<close>

function create_particles ::
  "nat \<Rightarrow> nat \<Rightarrow> ref \<Rightarrow> world \<Rightarrow> particle list \<Rightarrow> particle list \<times> world" where
  "create_particles i n c w ps =
     (if i < n then
        (let (p, w') = new_Particle c w in create_particles (Suc i) n c w' (ps @ [p]))
      else (ps, w))"
  by pat_completeness auto
termination
  by (relation "measure (\<lambda>(i, n, c, w, ps). n - i)") auto

text \<open>
  \<open>this.particles.forEach(particle => { particle.update(); particle.draw(this.ctx); })\<close>:
  each particle is updated and then drawn, in the order of the array.
\<close>

fun forEach_update_draw ::
  "(ref \<Rightarrow> canvas) \<Rightarrow> particle list \<Rightarrow> draw_op list \<Rightarrow> particle list \<times> draw_op list" where
  "forEach_update_draw st [] ops = ([], ops)"
| "forEach_update_draw st (p # ps) ops =
     (let p' = update st p;
          ops' = ops @ [draw p'];
          (ps', ops'') = forEach_update_draw st ps ops'
      in (p' # ps', ops''))"

definition maxDistance :: real where
  "maxDistance = 120"

text \<open>
  \<open>distance\<close> is \<open>Math.sqrt(dx * dx + dy * dy)\<close> with \<open>dx\<close> and \<open>dy\<close> the
  differences of the coordinates, and \<open>line_opacity\<close> is
  \<open>(1 - distance / maxDistance) * 0.2\<close>; each operation rounds, and the literal \<open>0.2\<close>
  is the binary64 value nearest to one fifth.
\<close>

definition distance :: "particle \<Rightarrow> particle \<Rightarrow> real" where
  "distance a b =
     (let dx = binary64 (px a - px b);
          dy = binary64 (py a - py b)
      in binary64 (sqrt (binary64 (binary64 (dx * dx) + binary64 (dy * dy)))))"

definition line_opacity :: "real \<Rightarrow> real" where
  "line_opacity d = binary64 (binary64 (1 - binary64 (d / maxDistance)) * binary64 (1 / 5))"

definition stroke :: "particle list \<Rightarrow> nat \<Rightarrow> nat \<Rightarrow> draw_op" where
  "stroke ps i j =
     StrokeLine (px (ps ! i)) (py (ps ! i)) (px (ps ! j)) (py (ps ! j))
       (line_opacity (distance (ps ! i) (ps ! j)))"

text \<open>
  The two loops of \<open>drawConnections\<close>. Both indices stay below the length of the array,
  so every read \<open>ps ! i\<close> is in range.
\<close>

function connect_inner :: "particle list \<Rightarrow> nat \<Rightarrow> nat \<Rightarrow> draw_op list \<Rightarrow> draw_op list" where
  "connect_inner ps i j ops =
     (if j < length ps then
        connect_inner ps i (Suc j)
          (if distance (ps ! i) (ps ! j) < maxDistance then ops @ [stroke ps i j] else ops)
      else ops)"
  by pat_completeness auto
termination
  by (relation "measure (\<lambda>(ps, i, j, ops). length ps - j)") auto

function connect_outer :: "particle list \<Rightarrow> nat \<Rightarrow> draw_op list \<Rightarrow> draw_op list" where
  "connect_outer ps i ops =
     (if i < length ps then connect_outer ps (Suc i) (connect_inner ps i (Suc i) ops)
      else ops)"
  by pat_completeness auto
termination
  by (relation "measure (\<lambda>(ps, i, ops). length ps - i)") auto

definition drawConnections :: "particle list \<Rightarrow> draw_op list \<Rightarrow> draw_op list" where
  "drawConnections ps ops = connect_outer ps 0 ops"

text \<open>
  One frame. The call \<open>requestAnimationFrame(() => this.animate())\<close> at its end asks for
  the next frame, which is the event \<open>Frame\<close> below.
\<close>

definition animate :: "world \<Rightarrow> ParticleSystem \<Rightarrow> ParticleSystem" where
  "animate w s =
     (let c = store w (canvas_of s);
          ops1 = ctx s @ [ClearRect 0 0 (real (width c)) (real (height c))];
          (ps', ops2) = forEach_update_draw (store w) (particles s) ops1;
          s1 = s\<lparr>particles := ps', ctx := ops2\<rparr>;
          s2 = s1\<lparr>ctx := drawConnections (particles s1) (ctx s1)\<rparr>
      in s2)"

definition updateColor :: "string \<Rightarrow> ParticleSystem \<Rightarrow> ParticleSystem" where
  "updateColor col s = s\<lparr>particles := map (\<lambda>p. p\<lparr>color := Some col\<rparr>) (particles s)\<rparr>"

definition init :: "world \<Rightarrow> ParticleSystem \<Rightarrow> world \<times> ParticleSystem" where
  "init w s =
     (let w1 = resizeCanvas w s;
          (ps, w2) = create_particles 0 (particleCount s) (canvas_of s) w1 (particles s);
          s1 = s\<lparr>particles := ps\<rparr>
      in (w2, animate w2 s1))"

text \<open>
  The constructor. \<open>document.getElementById\<close> returns \<open>null\<close> for an identifier the
  document does not have, and the next statement, \<open>this.canvas.getContext('2d')\<close>, then
  throws a \<open>TypeError\<close>; no statement of the constructor catches it.
\<close>

definition new_ParticleSystem :: "world \<Rightarrow> string \<Rightarrow> nat \<Rightarrow> error + (world \<times> ParticleSystem)" where
  "new_ParticleSystem w canvasId n =
     (case document w canvasId of
        None \<Rightarrow> Inl TypeError
      | Some c \<Rightarrow> Inr (init w \<lparr>canvas_of = c, ctx = [], particles = [], particleCount = n\<rparr>))"

text \<open>
  What happens to a constructed system afterwards: a display frame, a resize of the window
  to a new size (the listener that \<open>init\<close> registered calls \<open>resizeCanvas\<close>), or a call
  of \<open>updateColor\<close>.
\<close>

datatype event = Frame | Resize nat nat | UpdateColor string

fun handle :: "event \<Rightarrow> world \<times> ParticleSystem \<Rightarrow> world \<times> ParticleSystem" where
  "handle Frame (w, s) = (w, animate w s)"
| "handle (Resize iw ih) (w, s) =
     (resizeCanvas (w\<lparr>innerWidth := iw, innerHeight := ih\<rparr>) s, s)"
| "handle (UpdateColor col) (w, s) = (w, updateColor col s)"

fun run :: "event list \<Rightarrow> world \<times> ParticleSystem \<Rightarrow> world \<times> ParticleSystem" where
  "run [] ws = ws"
| "run (e # es) ws = run es (handle e ws)"

section \<open>The theme controller\<close>

text \<open>
  \<open>ThemeController\<close> keeps the list of themes and an index into it. Applying a theme
  writes the attribute \<open>data-theme\<close> of the body, the field \<open>currentTheme\<close> of the
  global \<open>state\<close> object and the class \<open>active\<close> of the button; these three are the
  record \<open>page\<close>. \<open>animateTransition\<close> adds a ripple element and restarts the animation
  of the grid items; it writes none of the fields modelled here and is left out.
\<close>

record ThemeController =
  button :: ref
  themes :: "string list"
  currentThemeIndex :: nat

record page =
  data_theme :: "string option"
  currentTheme :: string
  button_active :: bool

definition new_ThemeController :: "world \<Rightarrow> string \<Rightarrow> error + ThemeController" where
  "new_ThemeController w buttonId =
     (case document w buttonId of
        None \<Rightarrow> Inl TypeError
      | Some b \<Rightarrow> Inr \<lparr>button = b, themes = [''romantic'', ''vibrant''], currentThemeIndex = 0\<rparr>)"

definition applyTheme :: "string \<Rightarrow> page \<Rightarrow> page" where
  "applyTheme theme d =
     (let d1 = d\<lparr>data_theme := Some theme\<rparr>;
          d2 = d1\<lparr>currentTheme := theme\<rparr>
      in if theme = ''vibrant'' then d2\<lparr>button_active := True\<rparr>
         else d2\<lparr>button_active := False\<rparr>)"

text \<open>
  The index is reduced modulo the length of \<open>themes\<close>, which the constructor sets to a
  list of two and nothing changes, so the read \<open>themes ! index\<close> is in range.
\<close>

definition toggle :: "ThemeController \<times> page \<Rightarrow> ThemeController \<times> page" where
  "toggle tp =
     (let t = fst tp;
          t1 = t\<lparr>currentThemeIndex := (currentThemeIndex t + 1) mod length (themes t)\<rparr>;
          newTheme = themes t1 ! currentThemeIndex t1
      in (t1, applyTheme newTheme (snd tp)))"

text \<open>
  The states of the controller: the one the constructor leaves, with the page as the
  document and the literal \<open>state\<close> object give it (\<open>currentTheme: 'romantic'\<close>), and
  every state a click on the button leads to.
\<close>

inductive reachable :: "ThemeController \<times> page \<Rightarrow> bool" where
  start: "new_ThemeController w buttonId = Inr t \<Longrightarrow>
          reachable (t, \<lparr>data_theme = a, currentTheme = ''romantic'', button_active = b\<rparr>)"
| click: "reachable tp \<Longrightarrow> reachable (toggle tp)"

section \<open>Start of the page\<close>

text \<open>
  The listener of \<open>DOMContentLoaded\<close> builds the controllers one after the other, the
  particle system first. It has no \<open>try\<close>: an exception of one constructor ends the
  listener, and the statements after it do not run. In the order of the listener:
  \<^item> \<open>ParticleSystem('particleCanvas', 60)\<close>;
  \<^item> \<open>MusicController('bgAudio', 'musicBtn')\<close> stores the audio element and registers a
    listener on the button, which throws when the button is missing;
  \<^item> \<open>ThemeController('modeBtn')\<close>;
  \<^item> \<open>FloatingHeartsEffect\<close> and its \<open>start\<close>, whose \<open>createHeart\<close> draws four random
    numbers for a new element of the body;
  \<^item> \<open>LoveTreeCreator('treeBtn')\<close>, then \<open>FireworksController('ultimateBtn')\<close> and
    \<open>UltimateCelebration('ultimateBtn')\<close>, each registering a listener on its button;
  \<^item> \<open>ImageCarouselController\<close>, \<open>InteractiveEffects\<close> and \<open>PerformanceMonitor\<close>, which
    work on the elements they find and throw for none that is missing.
  The rest of the listener registers listeners on the document and the window. The result
  is the world with the two controllers modelled here.
\<close>

definition createHeart :: "world \<Rightarrow> world" where
  "createHeart w =
     (let (r1, w1) = Math_random w;
          (r2, w2) = Math_random w1;
          (r3, w3) = Math_random w2;
          (r4, w4) = Math_random w3
      in w4)"

definition DOMContentLoaded :: "world \<Rightarrow> error + (world \<times> ParticleSystem \<times> ThemeController)" where
  "DOMContentLoaded w =
     (case new_ParticleSystem w ''particleCanvas'' 60 of
        Inl e \<Rightarrow> Inl e
      | Inr (w1, ps) \<Rightarrow>
          (case document w1 ''musicBtn'' of
             None \<Rightarrow> Inl TypeError
           | Some m \<Rightarrow>
               (case new_ThemeController w1 ''modeBtn'' of
                  Inl e \<Rightarrow> Inl e
                | Inr tc \<Rightarrow>
                    (let w2 = createHeart w1
                     in case document w2 ''treeBtn'' of
                          None \<Rightarrow> Inl TypeError
                        | Some tb \<Rightarrow>
                            (case document w2 ''ultimateBtn'' of
                               None \<Rightarrow> Inl TypeError
                             | Some ub \<Rightarrow> Inr (w2, ps, tc))))))"

section \<open>Notions used in the statements\<close>

declare connect_inner.simps [simp del] connect_outer.simps [simp del]
  create_particles.simps [simp del]

text \<open>
  The index pairs a pass of \<open>drawConnections\<close> connects: \<open>close_from ps i\<close> lists, in
  the order of the inner loop, the pairs the outer loop finds at index \<open>i\<close>;
  \<open>close_pairs\<close> is the set of all pairs \<open>i < j\<close> whose computed distance is less than
  the threshold.
\<close>

definition close_from :: "particle list \<Rightarrow> nat \<Rightarrow> (nat \<times> nat) list" where
  "close_from ps i = map (Pair i) (filter (\<lambda>j. distance (ps ! i) (ps ! j) < maxDistance) [Suc i..<length ps])"

definition close_pairs :: "particle list \<Rightarrow> (nat \<times> nat) set" where
  "close_pairs ps = {(i, j). i < j \<and> j < length ps \<and> distance (ps ! i) (ps ! j) < maxDistance}"

text \<open>
  \<open>aliased\<close>: every particle of the system refers to the canvas object the system refers
  to. \<open>fixed_attributes\<close> are the fields of a particle other than its position, its canvas
  and its colour. \<open>in_bounds\<close>: every particle lies in the closed rectangle of the current
  canvas. \<open>resize_pending b es\<close> tells whether, after the events \<open>es\<close>, a resize has
  happened since the last frame (\<open>b\<close> is the answer before \<open>es\<close>); \<open>no_resize\<close> holds
  for event lists without a resize.
\<close>

definition aliased :: "ParticleSystem \<Rightarrow> bool" where
  "aliased s = list_all (\<lambda>p. pcanvas p = canvas_of s) (particles s)"

definition fixed_attributes :: "particle \<Rightarrow> real \<times> real \<times> real \<times> real" where
  "fixed_attributes p = (speedX p, speedY p, psize p, opacity p)"

definition in_bounds :: "world \<times> ParticleSystem \<Rightarrow> bool" where
  "in_bounds ws =
     list_all (\<lambda>p. 0 \<le> px p \<and> px p \<le> real (width (store (fst ws) (canvas_of (snd ws)))) \<and>
                    0 \<le> py p \<and> py p \<le> real (height (store (fst ws) (canvas_of (snd ws)))))
       (particles (snd ws))"

fun resize_pending :: "bool \<Rightarrow> event list \<Rightarrow> bool" where
  "resize_pending b [] = b"
| "resize_pending b (Frame # es) = resize_pending False es"
| "resize_pending b (Resize iw ih # es) = resize_pending True es"
| "resize_pending b (UpdateColor col # es) = resize_pending b es"

text \<open>
  Concrete data for the examples: a window of 800 by 600 over a document with the canvas and
  the buttons, with every random draw 0, and the field of one particle built in it; two
  particles 200 apart, two particles 40 apart and two particles just inside the threshold
  of 120; a canvas of 100 by 100 with particles next to its edges, one of them at the edge
  with a velocity too small to move it; a window of size 0; a document without the canvas;
  the theme controller as its constructor leaves it.
\<close>

definition example_world :: world where
  "example_world =
     \<lparr>store = (\<lambda>r. \<lparr>width = 300, height = 150\<rparr>),
      document = [''particleCanvas'' \<mapsto> 0, ''musicBtn'' \<mapsto> 1, ''modeBtn'' \<mapsto> 2,
                  ''treeBtn'' \<mapsto> 3, ''ultimateBtn'' \<mapsto> 4],
      innerWidth = 800, innerHeight = 600,
      random_source = (\<lambda>k. 0), random_used = 0\<rparr>"

definition example_field :: "world \<times> ParticleSystem" where
  "example_field = init example_world \<lparr>canvas_of = 0, ctx = [], particles = [], particleCount = 1\<rparr>"

definition no_resize :: "event list \<Rightarrow> bool" where
  "no_resize es = list_all (\<lambda>e. case e of Resize iw ih \<Rightarrow> False | _ \<Rightarrow> True) es"

definition far_pair :: "particle list" where
  "far_pair =
     [\<lparr>pcanvas = 0, px = 10, py = 10, psize = 1, speedX = 0, speedY = 0, opacity = 0.2,
       color = None\<rparr>,
      \<lparr>pcanvas = 0, px = 10, py = 210, psize = 1, speedX = 0, speedY = 0, opacity = 0.2,
       color = None\<rparr>]"

definition near_pair :: "particle list" where
  "near_pair =
     [\<lparr>pcanvas = 0, px = 10, py = 10, psize = 1, speedX = 0, speedY = 0, opacity = 0.2,
       color = None\<rparr>,
      \<lparr>pcanvas = 0, px = 10, py = 50, psize = 1, speedX = 0, speedY = 0, opacity = 0.2,
       color = None\<rparr>]"

definition threshold_pair :: "particle list" where
  "threshold_pair =
     [\<lparr>pcanvas = 0, px = 0, py = 0, psize = 1, speedX = 0, speedY = 0, opacity = 0.2,
       color = None\<rparr>,
      \<lparr>pcanvas = 0, px = 8444249301319679 / 2 ^ 46, py = 7 / 2 ^ 22, psize = 1, speedX = 0,
       speedY = 0, opacity = 0.2, color = None\<rparr>]"

definition edge_particle :: particle where
  "edge_particle =
     \<lparr>pcanvas = 0, px = 12787 / 128, py = 1 / 8, psize = 1, speedX = 1, speedY = - (1 / 4),
      opacity = 0.2, color = None\<rparr>"

definition square_store :: "ref \<Rightarrow> canvas" where
  "square_store r = \<lparr>width = 100, height = 100\<rparr>"

definition low_particle :: particle where
  "low_particle =
     \<lparr>pcanvas = 0, px = 1 / 8, py = 50, psize = 1, speedX = - (1 / 4), speedY = 1 / 4,
      opacity = 0.2, color = None\<rparr>"

definition still_particle :: particle where
  "still_particle =
     \<lparr>pcanvas = 0, px = 100, py = 50, psize = 1, speedX = 1 / 2 ^ 53, speedY = 0,
      opacity = 0.2, color = None\<rparr>"

definition mid_particle :: particle where
  "mid_particle =
     \<lparr>pcanvas = 0, px = 50, py = 799 / 8, psize = 1, speedX = 1 / 4, speedY = 1,
      opacity = 0.2, color = None\<rparr>"




definition page_without_canvas :: world where
  "page_without_canvas =
     \<lparr>store = (\<lambda>r. \<lparr>width = 300, height = 150\<rparr>),
      document = [''musicBtn'' \<mapsto> 1, ''modeBtn'' \<mapsto> 2, ''treeBtn'' \<mapsto> 3,
                  ''ultimateBtn'' \<mapsto> 4],
      innerWidth = 800, innerHeight = 600,
      random_source = (\<lambda>k. 0), random_used = 0\<rparr>"

definition start_page :: page where
  "start_page = \<lparr>data_theme = None, currentTheme = ''romantic'', button_active = False\<rparr>"

definition start_controller :: ThemeController where
  "start_controller = \<lparr>button = 2, themes = [''romantic'', ''vibrant''], currentThemeIndex = 0\<rparr>"

section \<open>Properties\<close>

subsection \<open>Rounding to binary64\<close>

lemma rne_error: "\<bar>of_int (rne y) - y\<bar> \<le> 1 / 2"
  unfolding rne_def Let_def by (auto; linarith)

lemma rne_of_int: "rne (of_int n) = n"
  by (simp add: rne_def)

lemma rne_ge: "of_int n \<le> y \<Longrightarrow> n \<le> rne y"
  unfolding rne_def Let_def by (auto simp: le_floor_iff; linarith)

lemma rne_le: "y \<le> of_int n \<Longrightarrow> rne y \<le> n"
proof -
  assume h: "y \<le> of_int n"
  show ?thesis
  proof (cases "y = of_int n")
    case True
    then show ?thesis by (simp add: rne_of_int)
  next
    case False
    then have "y < of_int n" using h by simp
    then have "\<lfloor>y\<rfloor> < n" by (simp add: floor_less_iff)
    then show ?thesis
      unfolding rne_def Let_def by auto
  qed
qed

lemma rne_mono: "x \<le> y \<Longrightarrow> rne x \<le> rne y"
proof -
  assume h: "x \<le> y"
  have fl: "\<lfloor>x\<rfloor> \<le> \<lfloor>y\<rfloor>" using h by (rule floor_mono)
  show ?thesis
  proof (cases "\<lfloor>x\<rfloor> = \<lfloor>y\<rfloor>")
    case True
    then show ?thesis
      using h unfolding rne_def Let_def by auto
  next
    case False
    then have "\<lfloor>x\<rfloor> + 1 \<le> \<lfloor>y\<rfloor>" using fl by simp
    moreover have "rne x \<le> \<lfloor>x\<rfloor> + 1"
      by (rule rne_le) linarith
    moreover have "\<lfloor>y\<rfloor> \<le> rne y"
      by (rule rne_ge) simp
    ultimately show ?thesis by linarith
  qed
qed

lemma rne_minus: "rne (- y) = - rne y"
proof (cases "y = of_int \<lfloor>y\<rfloor>")
  case True
  then obtain n where "y = of_int n" by metis
  then show ?thesis
    by (metis rne_of_int of_int_minus)
next
  case False
  then have "of_int \<lfloor>y\<rfloor> < y"
    using of_int_floor_le[of y] by linarith
  then have f: "\<lfloor>- y\<rfloor> = - \<lfloor>y\<rfloor> - 1"
    by (intro floor_unique) (simp_all, linarith)
  show ?thesis
    unfolding rne_def Let_def f by (auto; linarith)
qed


lemma floor_log2_powi:
  "0 < x \<Longrightarrow> \<lfloor>log 2 x\<rfloor> = k \<longleftrightarrow> 2 powi k \<le> x \<and> x < 2 powi (k + 1)"
  using floor_log_eq_powr_iff[of x 2 k] powr_real_of_int'[of 2 k] powr_real_of_int'[of 2 "k + 1"]
  by simp

lemma quantum_pos: "0 < quantum x"
  by (simp add: quantum_def)

lemma exponent_ge: "emin \<le> exponent x"
  by (simp add: exponent_def)

lemma exponent_upper: "\<bar>x\<bar> < 2 powi (exponent x + 1)"
proof (cases "x = 0")
  case True
  then show ?thesis by simp
next
  case False
  then have pos: "0 < \<bar>x\<bar>" by simp
  have "\<bar>x\<bar> < 2 powi (\<lfloor>log 2 \<bar>x\<bar>\<rfloor> + 1)"
    using floor_log2_powi[OF pos, of "\<lfloor>log 2 \<bar>x\<bar>\<rfloor>"] by simp
  also have "\<dots> \<le> 2 powi (exponent x + 1)"
    using False by (intro power_int_increasing) (simp_all add: exponent_def)
  finally show ?thesis .
qed

lemma exponent_lower: "2 powi emin \<le> \<bar>x\<bar> \<Longrightarrow> 2 powi exponent x \<le> \<bar>x\<bar>"
proof -
  assume h: "2 powi emin \<le> \<bar>x\<bar>"
  have "(0::real) < 2 powi emin" by simp
  then have pos: "0 < \<bar>x\<bar>" using h by linarith
  then have nz: "x \<noteq> 0" by auto
  have 1: "2 powi \<lfloor>log 2 \<bar>x\<bar>\<rfloor> \<le> \<bar>x\<bar>"
    using floor_log2_powi[OF pos, of "\<lfloor>log 2 \<bar>x\<bar>\<rfloor>"] by simp
  show ?thesis
  proof (cases "emin \<le> \<lfloor>log 2 \<bar>x\<bar>\<rfloor>")
    case True
    then show ?thesis using 1 nz by (simp add: exponent_def max_def)
  next
    case False
    then show ?thesis using h nz by (simp add: exponent_def max_def)
  qed
qed

lemma exponent_eq:
  assumes "2 powi e \<le> \<bar>x\<bar>" "\<bar>x\<bar> < 2 powi (e + 1)" "emin \<le> e"
  shows "exponent x = e"
proof -
  have "(0::real) < 2 powi e" by simp
  then have pos: "0 < \<bar>x\<bar>" using assms(1) by linarith
  then have "\<lfloor>log 2 \<bar>x\<bar>\<rfloor> = e"
    using floor_log2_powi[OF pos, of e] assms by simp
  then show ?thesis
    using pos assms(3) by (auto simp: exponent_def)
qed

lemma exponent_subnormal: "\<bar>x\<bar> < 2 powi emin \<Longrightarrow> exponent x = emin"
proof (cases "x = 0")
  case True
  then show ?thesis by (simp add: exponent_def)
next
  case False
  assume h: "\<bar>x\<bar> < 2 powi emin"
  have pos: "0 < \<bar>x\<bar>" using False by simp
  have "\<lfloor>log 2 \<bar>x\<bar>\<rfloor> < emin"
  proof (rule ccontr)
    assume "\<not> \<lfloor>log 2 \<bar>x\<bar>\<rfloor> < emin"
    then have "(2::real) powi emin \<le> 2 powi \<lfloor>log 2 \<bar>x\<bar>\<rfloor>"
      by (intro power_int_increasing) simp_all
    also have "\<dots> \<le> \<bar>x\<bar>"
      using floor_log2_powi[OF pos, of "\<lfloor>log 2 \<bar>x\<bar>\<rfloor>"] by simp
    finally show False using h by simp
  qed
  then show ?thesis using False by (simp add: exponent_def)
qed

lemma binary64_half_quantum: "\<bar>binary64 x - x\<bar> \<le> quantum x / 2"
proof -
  let ?q = "quantum x"
  let ?n = "real_of_int (rne (x / ?q))"
  have q: "0 < ?q" by (rule quantum_pos)
  have "\<bar>?n - x / ?q\<bar> * ?q \<le> 1 / 2 * ?q"
    using rne_error[of "x / ?q"] q by (intro mult_right_mono) simp_all
  moreover have "\<bar>?n - x / ?q\<bar> * ?q = \<bar>(?n - x / ?q) * ?q\<bar>"
    using q by (simp add: abs_mult)
  moreover have "(?n - x / ?q) * ?q = binary64 x - x"
    using q by (simp add: binary64_def left_diff_distrib)
  ultimately show ?thesis by simp
qed

lemma binary64_error:
  "\<bar>binary64 x - x\<bar> \<le> \<bar>x\<bar> / 2 ^ 53 + 2 powi (emin - 53)"
proof (cases "2 powi emin \<le> \<bar>x\<bar>")
  case True
  have "quantum x / 2 = 2 powi exponent x / 2 ^ 53"
    by (simp add: quantum_def power_int_diff)
  also have "\<dots> \<le> \<bar>x\<bar> / 2 ^ 53"
    using exponent_lower[OF True] by (simp add: divide_right_mono)
  finally have "quantum x / 2 \<le> \<bar>x\<bar> / 2 ^ 53" .
  moreover have "(0::real) \<le> 2 powi (emin - 53)" by simp
  ultimately show ?thesis
    using binary64_half_quantum[of x] by linarith
next
  case False
  then have "exponent x = emin" by (intro exponent_subnormal) simp
  then have "quantum x / 2 = 2 powi (emin - 53)"
    by (simp add: quantum_def power_int_diff)
  moreover have "0 \<le> \<bar>x\<bar> / 2 ^ 53" by simp
  ultimately show ?thesis
    using binary64_half_quantum[of x] by linarith
qed

lemma binary64_zero: "binary64 0 = 0"
  by (simp add: binary64_def rne_def)

lemma binary64_nonneg: "0 \<le> x \<Longrightarrow> 0 \<le> binary64 x"
  using rne_ge[of 0 "x / quantum x"] quantum_pos[of x]
  by (simp add: binary64_def)

lemma exponent_minus: "exponent (- x) = exponent x"
  by (simp add: exponent_def)

lemma binary64_minus: "binary64 (- x) = - binary64 x"
  by (simp add: binary64_def quantum_def exponent_minus rne_minus)


lemma pow2_less_exp: "(2::real) powi a < 2 powi b \<Longrightarrow> a < b"
proof (rule ccontr)
  assume h: "(2::real) powi a < 2 powi b" and "\<not> a < b"
  then have "(2::real) powi b \<le> 2 powi a"
    by (intro power_int_increasing) simp_all
  with h show False by simp
qed

lemma exponent_mono: "\<bar>x\<bar> \<le> \<bar>y\<bar> \<Longrightarrow> exponent x \<le> exponent y"
proof (cases "x = 0")
  case True
  then show ?thesis by (simp add: exponent_ge exponent_def)
next
  case False
  assume h: "\<bar>x\<bar> \<le> \<bar>y\<bar>"
  then have "y \<noteq> 0" using False by auto
  moreover have "log 2 \<bar>x\<bar> \<le> log 2 \<bar>y\<bar>"
    using h False by simp
  then have "\<lfloor>log 2 \<bar>x\<bar>\<rfloor> \<le> \<lfloor>log 2 \<bar>y\<bar>\<rfloor>"
    by (rule floor_mono)
  ultimately show ?thesis
    using False by (simp add: exponent_def)
qed

lemma quantum_scale: "2 powi (exponent x + j) / quantum x = 2 powi (52 + j)"
proof -
  have "exponent x + j = (52 + j) + (exponent x - 52)"
    by linarith
  then have "(2::real) powi (exponent x + j) = 2 powi ((52 + j) + (exponent x - 52))"
    by (rule arg_cong)
  also have "\<dots> = 2 powi (52 + j) * 2 powi (exponent x - 52)"
    by (rule power_int_add) simp
  finally have "(2::real) powi (exponent x + j) = 2 powi (52 + j) * 2 powi (exponent x - 52)" .
  then show ?thesis
    by (simp add: quantum_def)
qed

lemma binary64_le_pow: "binary64 x \<le> 2 powi (exponent x + 1)"
proof -
  have "x \<le> \<bar>x\<bar>" by simp
  also have "\<dots> < 2 powi (exponent x + 1)" by (rule exponent_upper)
  finally have "x / quantum x \<le> 2 powi (exponent x + 1) / quantum x"
    using quantum_pos[of x] by (simp add: divide_right_mono)
  also have "\<dots> = of_int (2 ^ 53)"
    using quantum_scale[of x 1] by (simp add: power_int_add)
  finally have "rne (x / quantum x) \<le> 2 ^ 53"
    by (rule rne_le)
  then have "real_of_int (rne (x / quantum x)) \<le> of_int (2 ^ 53)"
    by (simp only: of_int_le_iff)
  then have "binary64 x \<le> of_int (2 ^ 53) * quantum x"
    unfolding binary64_def using quantum_pos[of x] by (intro mult_right_mono) simp_all
  also have "\<dots> = 2 powi (exponent x + 1)"
    using quantum_scale[of x 1] quantum_pos[of x] by (simp add: power_int_add field_simps)
  finally show ?thesis .
qed

lemma binary64_ge_pow:
  assumes "2 powi exponent x \<le> x"
  shows "2 powi exponent x \<le> binary64 x"
proof -
  have "of_int (2 ^ 52) = 2 powi exponent x / quantum x"
    using quantum_scale[of x 0] by simp
  also have "\<dots> \<le> x / quantum x"
    using assms quantum_pos[of x] by (simp add: divide_right_mono)
  finally have "2 ^ 52 \<le> rne (x / quantum x)"
    by (rule rne_ge)
  then have "of_int (2 ^ 52) \<le> real_of_int (rne (x / quantum x))"
    by (simp only: of_int_le_iff)
  then have "of_int (2 ^ 52) * quantum x \<le> binary64 x"
    unfolding binary64_def using quantum_pos[of x] by (intro mult_right_mono) simp_all
  moreover have "of_int (2 ^ 52) * quantum x = 2 powi exponent x"
    using quantum_scale[of x 0] quantum_pos[of x] by (simp add: field_simps)
  ultimately show ?thesis by simp
qed

lemma binary64_mono_nonneg:
  assumes "0 \<le> x" "x \<le> y"
  shows "binary64 x \<le> binary64 y"
proof (cases "exponent x = exponent y")
  case True
  then have q: "quantum x = quantum y" by (simp add: quantum_def)
  have "x / quantum y \<le> y / quantum y"
    using assms(2) quantum_pos[of y] by (simp add: divide_right_mono)
  then have "rne (x / quantum y) \<le> rne (y / quantum y)" by (rule rne_mono)
  then have "real_of_int (rne (x / quantum y)) \<le> real_of_int (rne (y / quantum y))"
    by simp
  then show ?thesis
    unfolding binary64_def q using quantum_pos[of y] by (intro mult_right_mono) simp_all
next
  case False
  have "exponent x \<le> exponent y"
    using assms by (intro exponent_mono) simp
  then have lt: "exponent x + 1 \<le> exponent y" using False by simp
  have ynz: "y \<noteq> 0"
    using lt exponent_ge[of x] by (auto simp: exponent_def)
  have "emin < exponent y" using lt exponent_ge[of x] by simp
  then have "\<lfloor>log 2 \<bar>y\<bar>\<rfloor> = exponent y"
    using ynz by (simp add: exponent_def max_def split: if_splits)
  then have "2 powi exponent y \<le> \<bar>y\<bar>"
    using floor_log2_powi[of "\<bar>y\<bar>" "exponent y"] ynz by simp
  then have "2 powi exponent y \<le> y" using assms by simp
  then have "2 powi exponent y \<le> binary64 y" by (rule binary64_ge_pow)
  moreover have "binary64 x \<le> 2 powi (exponent x + 1)" by (rule binary64_le_pow)
  moreover have "(2::real) powi (exponent x + 1) \<le> 2 powi exponent y"
    using lt by (intro power_int_increasing) simp_all
  ultimately show ?thesis by linarith
qed

lemma binary64_mono: "x \<le> y \<Longrightarrow> binary64 x \<le> binary64 y"
proof -
  assume h: "x \<le> y"
  consider "0 \<le> x" | "y \<le> 0" | "x < 0" "0 < y" by linarith
  then show ?thesis
  proof cases
    case 1
    then show ?thesis using h by (rule binary64_mono_nonneg)
  next
    case 2
    then have "binary64 (- y) \<le> binary64 (- x)"
      using h by (intro binary64_mono_nonneg) simp_all
    then show ?thesis by (simp add: binary64_minus)
  next
    case 3
    have "binary64 (- x) \<ge> 0" using 3 by (intro binary64_nonneg) simp
    moreover have "binary64 y \<ge> 0" using 3 by (intro binary64_nonneg) simp
    ultimately show ?thesis by (simp add: binary64_minus)
  qed
qed

lemma binary64_exact:
  assumes "x = of_int m * 2 powi k" "\<bar>m\<bar> < 2 ^ 53" "emin - 52 \<le> k"
  shows "binary64 x = x"
proof -
  have le: "exponent x - 52 \<le> k"
  proof (cases "2 powi emin \<le> \<bar>x\<bar>")
    case True
    have "2 powi exponent x \<le> \<bar>x\<bar>" using True by (rule exponent_lower)
    also have "\<bar>x\<bar> = \<bar>real_of_int m\<bar> * 2 powi k"
      by (simp add: assms(1) abs_mult)
    also have "\<dots> < of_int (2 ^ 53) * 2 powi k"
      using assms(2) by (intro mult_strict_right_mono) (simp_all only: of_int_abs[symmetric] of_int_less_iff, simp)
    also have "\<dots> = 2 powi (53 + k)"
      by (simp add: power_int_add)
    finally have "exponent x < 53 + k"
      by (rule pow2_less_exp)
    then show ?thesis by simp
  next
    case False
    then have "exponent x = emin" by (intro exponent_subnormal) simp
    then show ?thesis using assms(3) by simp
  qed
  define j where "j = nat (k - (exponent x - 52))"
  have k: "k = int j + (exponent x - 52)" using le by (simp add: j_def)
  have "(2::real) powi k = 2 powi (int j + (exponent x - 52))"
    using k by simp
  also have "\<dots> = 2 powi int j * 2 powi (exponent x - 52)"
    by (rule power_int_add) simp
  finally have "(2::real) powi k = 2 ^ j * quantum x"
    by (simp add: quantum_def)
  then have "x = of_int m * 2 ^ j * quantum x"
    using assms(1) by simp
  then have "x / quantum x = of_int m * 2 ^ j * quantum x / quantum x"
    by simp
  then have xq: "x / quantum x = of_int (m * 2 ^ j)"
    using quantum_pos[of x] by simp
  have "rne (x / quantum x) = m * 2 ^ j"
    unfolding xq by (rule rne_of_int)
  then have "binary64 x = of_int (m * 2 ^ j) * quantum x"
    by (simp add: binary64_def)
  also have "\<dots> = x"
    using xq quantum_pos[of x] by (simp add: field_simps)
  finally show ?thesis .
qed

lemma binary64_eval:
  assumes "2 powi e \<le> \<bar>x\<bar>" "\<bar>x\<bar> < 2 powi (e + 1)" "emin \<le> e"
  shows "binary64 x = of_int (rne (x / 2 powi (e - 52))) * 2 powi (e - 52)"
  using exponent_eq[OF assms] by (simp add: binary64_def quantum_def)

lemma binary64_dyadic:
  assumes "\<bar>m\<bar> < 2 ^ 53" "n \<le> 1074"
  shows "binary64 (of_int m / 2 ^ n) = of_int m / 2 ^ n"
proof (rule binary64_exact[of _ m "- int n"])
  show "real_of_int m / 2 ^ n = real_of_int m * 2 powi (- int n)"
    by (simp add: power_int_minus field_simps)
  show "\<bar>m\<bar> < 2 ^ 53" by fact
  show "emin - 52 \<le> - int n" using assms(2) by (simp add: emin_def)
qed

lemma binary64_of_int: "\<bar>m\<bar> < 2 ^ 53 \<Longrightarrow> binary64 (of_int m) = of_int m"
  using binary64_dyadic[of m 0] by simp

lemma underflow_small: "(2::real) powi (emin - 53) \<le> 1 / 2 ^ 53"
proof -
  have "(2::real) powi (emin - 53) \<le> 2 powi (- 53)"
    by (intro power_int_increasing) (simp_all add: emin_def)
  also have "\<dots> = 1 / 2 ^ 53"
    by (simp add: power_int_minus field_simps)
  finally show ?thesis .
qed

lemma binary64_near: "\<bar>binary64 x - x\<bar> \<le> (\<bar>x\<bar> + 1) / 2 ^ 53"
proof -
  have "\<bar>binary64 x - x\<bar> \<le> \<bar>x\<bar> / 2 ^ 53 + 1 / 2 ^ 53"
    using binary64_error[of x] underflow_small by linarith
  then show ?thesis
    by (simp add: add_divide_distrib)
qed

subsection \<open>The particle field\<close>

lemma update_pcanvas: "pcanvas (update st p) = pcanvas p"
  by (simp add: update_def Let_def)

lemma update_px:
  "px (update st p) =
     (if binary64 (px p + speedX p) > real (width (st (pcanvas p))) then 0
      else if binary64 (px p + speedX p) < 0 then real (width (st (pcanvas p)))
      else binary64 (px p + speedX p))"
  by (simp add: update_def Let_def)

lemma update_py:
  "py (update st p) =
     (if binary64 (py p + speedY p) > real (height (st (pcanvas p))) then 0
      else if binary64 (py p + speedY p) < 0 then real (height (st (pcanvas p)))
      else binary64 (py p + speedY p))"
  by (simp add: update_def Let_def)

lemma update_psize: "psize (update st p) = psize p"
  by (simp add: update_def Let_def)

lemma update_speedX: "speedX (update st p) = speedX p"
  by (simp add: update_def Let_def)

lemma update_speedY: "speedY (update st p) = speedY p"
  by (simp add: update_def Let_def)

lemma update_opacity: "opacity (update st p) = opacity p"
  by (simp add: update_def Let_def)

lemma update_color: "color (update st p) = color p"
  by (simp add: update_def Let_def)

lemma forEach_fst: "fst (forEach_update_draw st ps ops) = map (update st) ps"
  by (induction ps arbitrary: ops) (simp_all add: Let_def case_prod_beta)

lemma forEach_snd: "snd (forEach_update_draw st ps ops) = ops @ map (\<lambda>p. draw (update st p)) ps"
  by (induction ps arbitrary: ops) (simp_all add: Let_def case_prod_beta)

lemma particles_animate: "particles (animate w s) = map (update (store w)) (particles s)"
  by (simp add: animate_def Let_def case_prod_beta forEach_fst)

lemma canvas_of_animate: "canvas_of (animate w s) = canvas_of s"
  by (simp add: animate_def Let_def case_prod_beta)

lemma particleCount_animate: "particleCount (animate w s) = particleCount s"
  by (simp add: animate_def Let_def case_prod_beta)

lemma connect_inner_eq:
  "connect_inner ps i j ops =
     ops @ map (stroke ps i) (filter (\<lambda>j. distance (ps ! i) (ps ! j) < maxDistance) [j..<length ps])"
proof (induction ps i j ops rule: connect_inner.induct)
  case (1 ps i j ops)
  show ?case
  proof (cases "j < length ps")
    case True
    have u: "[j..<length ps] = j # [Suc j..<length ps]"
      using True by (rule upt_conv_Cons)
    show ?thesis
      by (subst connect_inner.simps) (simp add: True "1.IH"[OF True] u)
  next
    case False
    then show ?thesis by (subst connect_inner.simps) simp
  qed
qed

lemma connect_outer_eq:
  "connect_outer ps i ops =
     ops @ map (\<lambda>(i, j). stroke ps i j) (concat (map (close_from ps) [i..<length ps]))"
proof (induction ps i ops rule: connect_outer.induct)
  case (1 ps i ops)
  show ?case
  proof (cases "i < length ps")
    case True
    have u: "[i..<length ps] = i # [Suc i..<length ps]"
      using True by (rule upt_conv_Cons)
    have "connect_outer ps i ops = connect_outer ps (Suc i) (connect_inner ps i (Suc i) ops)"
      using True by (subst connect_outer.simps) simp
    also have "\<dots> = connect_inner ps i (Suc i) ops @
        map (\<lambda>(i, j). stroke ps i j) (concat (map (close_from ps) [Suc i..<length ps]))"
      by (rule "1.IH"[OF True])
    also have "\<dots> = ops @
        map (\<lambda>(i, j). stroke ps i j) (concat (map (close_from ps) [i..<length ps]))"
      by (simp add: u connect_inner_eq close_from_def comp_def)
    finally show ?thesis .
  next
    case False
    then show ?thesis by (subst connect_outer.simps) simp
  qed
qed

lemma set_close_from:
  "set (close_from ps i) = {(a, j). a = i \<and> i < j \<and> j < length ps \<and> distance (ps ! i) (ps ! j) < maxDistance}"
  by (auto simp: close_from_def)

lemma distinct_close_from: "distinct (close_from ps i)"
  by (simp add: close_from_def distinct_map inj_on_def)

lemma set_close_all:
  "set (concat (map (close_from ps) [0..<length ps])) = close_pairs ps"
  by (auto simp: set_close_from close_pairs_def)

lemma distinct_close_all: "distinct (concat (map (close_from ps) [0..<n]))"
proof (induction n)
  case 0
  show ?case by simp
next
  case (Suc n)
  have "set (concat (map (close_from ps) [0..<n])) \<inter> set (close_from ps n) = {}"
    by (auto simp: set_close_from)
  with Suc show ?case
    by (simp add: distinct_close_from)
qed

lemma Math_random_simps:
  "fst (Math_random w) = random_source w (random_used w)"
  "snd (Math_random w) = w\<lparr>random_used := Suc (random_used w)\<rparr>"
  by (simp_all add: Math_random_def)

lemma reset_world: "snd (reset p w) = w\<lparr>random_used := random_used w + 6\<rparr>"
  by (simp add: reset_def Let_def case_prod_beta Math_random_simps)

lemma reset_fields:
  "pcanvas (fst (reset p w)) = pcanvas p"
  "color (fst (reset p w)) = color p"
  "px (fst (reset p w)) = random_source w (random_used w) * real (width (store w (pcanvas p)))"
  "py (fst (reset p w)) = random_source w (random_used w + 1) * real (height (store w (pcanvas p)))"
  "psize (fst (reset p w)) = random_source w (random_used w + 2) * 3 + 1"
  "speedX (fst (reset p w)) = random_source w (random_used w + 3) * 0.5 - 0.25"
  "speedY (fst (reset p w)) = random_source w (random_used w + 4) * 0.5 - 0.25"
  "opacity (fst (reset p w)) = random_source w (random_used w + 5) * 0.5 + 0.2"
  by (simp_all add: reset_def Let_def case_prod_beta Math_random_simps numeral_eq_Suc)

lemma new_Particle_pcanvas: "pcanvas (fst (new_Particle c w)) = c"
  by (simp add: new_Particle_def reset_fields)

lemma new_Particle_world: "snd (new_Particle c w) = w\<lparr>random_used := random_used w + 6\<rparr>"
  by (simp add: new_Particle_def reset_world)

lemma create_particles_length:
  "length (fst (create_particles i n c w ps)) = length ps + (n - i)"
proof (induction i n c w ps rule: create_particles.induct)
  case (1 i n c w ps)
  show ?case
  proof (cases "i < n")
    case True
    obtain p w' where pw: "new_Particle c w = (p, w')" by (cases "new_Particle c w")
    show ?thesis
      using True "1.IH"[OF True pw[symmetric] refl]
      by (subst create_particles.simps) (simp add: pw)
  next
    case False
    then show ?thesis by (subst create_particles.simps) simp
  qed
qed

lemma create_particles_pcanvas:
  "list_all (\<lambda>p. pcanvas p = c) ps \<Longrightarrow>
   list_all (\<lambda>p. pcanvas p = c) (fst (create_particles i n c w ps))"
proof (induction i n c w ps rule: create_particles.induct)
  case (1 i n c w ps)
  show ?case
  proof (cases "i < n")
    case True
    obtain p w' where pw: "new_Particle c w = (p, w')" by (cases "new_Particle c w")
    have "pcanvas p = c" using new_Particle_pcanvas[of c w] by (simp add: pw)
    then show ?thesis
      using True "1.IH"[OF True pw[symmetric] refl] "1.prems"
      by (subst create_particles.simps) (simp add: pw)
  next
    case False
    then show ?thesis using "1.prems" by (subst create_particles.simps) simp
  qed
qed

lemma create_particles_store:
  "store (snd (create_particles i n c w ps)) = store w"
proof (induction i n c w ps rule: create_particles.induct)
  case (1 i n c w ps)
  show ?case
  proof (cases "i < n")
    case True
    obtain p w' where pw: "new_Particle c w = (p, w')" by (cases "new_Particle c w")
    have "store w' = store w" using new_Particle_world[of c w] by (simp add: pw)
    then show ?thesis
      using True "1.IH"[OF True pw[symmetric] refl]
      by (subst create_particles.simps) (simp add: pw)
  next
    case False
    then show ?thesis by (subst create_particles.simps) simp
  qed
qed

lemma aliased_animate: "aliased s \<Longrightarrow> aliased (animate w s)"
  by (simp add: aliased_def particles_animate canvas_of_animate list_all_iff update_pcanvas)

lemma aliased_updateColor: "aliased s \<Longrightarrow> aliased (updateColor col s)"
  by (simp add: aliased_def updateColor_def list_all_iff)

lemma aliased_handle: "aliased (snd ws) \<Longrightarrow> aliased (snd (handle e ws))"
  by (cases e; cases ws) (simp_all add: aliased_animate aliased_updateColor)

lemma aliased_run: "aliased (snd ws) \<Longrightarrow> aliased (snd (run es ws))"
  by (induction es arbitrary: ws) (simp_all add: aliased_handle)

lemma init_particles_length:
  "length (particles (snd (init w s))) = length (particles s) + particleCount s"
  by (simp add: init_def Let_def case_prod_beta particles_animate create_particles_length)

lemma aliased_init: "aliased s \<Longrightarrow> aliased (snd (init w s))"
  unfolding init_def Let_def case_prod_beta snd_conv
  by (rule aliased_animate) (simp add: aliased_def create_particles_pcanvas)

lemma new_ParticleSystem_Inr:
  "new_ParticleSystem w cid n = Inr ws \<Longrightarrow>
   aliased (snd ws) \<and> length (particles (snd ws)) = n"
  by (auto simp: new_ParticleSystem_def init_particles_length aliased_def
           intro!: aliased_init[unfolded aliased_def] split: option.splits)

lemma length_handle: "length (particles (snd (handle e ws))) = length (particles (snd ws))"
  by (cases e; cases ws) (simp_all add: particles_animate updateColor_def)

lemma length_run: "length (particles (snd (run es ws))) = length (particles (snd ws))"
  by (induction es arbitrary: ws) (simp_all add: length_handle)

lemma fixed_attributes_update: "fixed_attributes (update st p) = fixed_attributes p"
  by (simp add: fixed_attributes_def update_speedX update_speedY update_psize update_opacity)

lemma fixed_attributes_handle:
  "map fixed_attributes (particles (snd (handle e ws))) = map fixed_attributes (particles (snd ws))"
  by (cases e; cases ws)
     (simp_all add: particles_animate updateColor_def comp_def fixed_attributes_update,
      simp add: fixed_attributes_def)

lemma fixed_attributes_run:
  "map fixed_attributes (particles (snd (run es ws))) = map fixed_attributes (particles (snd ws))"
  by (induction es arbitrary: ws) (simp_all add: fixed_attributes_handle)

lemma update_bounds:
  "0 \<le> px (update st p) \<and> px (update st p) \<le> real (width (st (pcanvas p))) \<and>
   0 \<le> py (update st p) \<and> py (update st p) \<le> real (height (st (pcanvas p)))"
  by (simp add: update_px update_py)

lemma in_bounds_animate:
  assumes "aliased s"
  shows "in_bounds (w, animate w s)"
proof -
  have "0 \<le> px (update (store w) p) \<and>
        px (update (store w) p) \<le> real (width (store w (canvas_of s))) \<and>
        0 \<le> py (update (store w) p) \<and>
        py (update (store w) p) \<le> real (height (store w (canvas_of s)))"
    if "p \<in> set (particles s)" for p
  proof -
    have "pcanvas p = canvas_of s"
      using assms that by (simp add: aliased_def list_all_iff)
    then show ?thesis
      using update_bounds[of "store w" p] by simp
  qed
  then show ?thesis
    by (simp add: in_bounds_def particles_animate canvas_of_animate list_all_iff)
qed

lemma in_bounds_updateColor: "in_bounds (w, s) \<Longrightarrow> in_bounds (w, updateColor col s)"
  by (simp add: in_bounds_def updateColor_def list_all_iff)

lemma in_bounds_run:
  "aliased (snd ws) \<Longrightarrow> (\<not> b \<Longrightarrow> in_bounds ws) \<Longrightarrow> \<not> resize_pending b es \<Longrightarrow>
   in_bounds (run es ws)"
proof (induction es arbitrary: b ws)
  case Nil
  then show ?case by simp
next
  case (Cons e es)
  obtain w s where ws: "ws = (w, s)" by (cases ws)
  have al: "aliased (snd (handle e ws))"
    using Cons.prems(1) by (rule aliased_handle)
  show ?case
  proof (cases e)
    case Frame
    have "in_bounds (handle e ws)"
      using Cons.prems(1) by (simp add: Frame ws in_bounds_animate)
    then show ?thesis
      using Cons.IH[of "handle e ws" False] al Cons.prems(3) by (simp add: Frame)
  next
    case (Resize iw ih)
    then show ?thesis
      using Cons.IH[of "handle e ws" True] al Cons.prems(3) by simp
  next
    case (UpdateColor col)
    have "\<not> b \<Longrightarrow> in_bounds (handle e ws)"
      using Cons.prems(2) by (simp add: UpdateColor ws in_bounds_updateColor)
    then show ?thesis
      using Cons.IH[of "handle e ws" b] al Cons.prems(3) by (simp add: UpdateColor)
  qed
qed

lemma in_bounds_init: "aliased s \<Longrightarrow> in_bounds (init w s)"
  unfolding init_def Let_def case_prod_beta
  by (rule in_bounds_animate) (simp add: aliased_def create_particles_pcanvas)

lemma in_bounds_new:
  "new_ParticleSystem w cid n = Inr ws \<Longrightarrow> in_bounds ws"
  by (auto simp: new_ParticleSystem_def aliased_def intro!: in_bounds_init split: option.splits)

lemma init_proj:
  "fst (init w s) =
     snd (create_particles 0 (particleCount s) (canvas_of s) (resizeCanvas w s) (particles s))"
  "particles (snd (init w s)) =
     map (update (store (resizeCanvas w s)))
       (fst (create_particles 0 (particleCount s) (canvas_of s) (resizeCanvas w s) (particles s)))"
  "canvas_of (snd (init w s)) = canvas_of s"
  "particleCount (snd (init w s)) = particleCount s"
  by (simp_all add: init_def Let_def case_prod_beta particles_animate canvas_of_animate
       particleCount_animate create_particles_store)

lemma canvas_both_updated:
  "(c::canvas)\<lparr>width := a, height := b\<rparr> = \<lparr>width = a, height = b\<rparr>"
  by (cases c) simp

lemma store_resizeCanvas:
  "store (resizeCanvas w s) =
     (store w)(canvas_of s := \<lparr>width = innerWidth w, height = innerHeight w\<rparr>)"
  by (simp add: resizeCanvas_def Let_def canvas_both_updated)

lemma example_created:
  "fst (create_particles 0 (Suc 0) 0 (resizeCanvas example_world s) []) =
     [\<lparr>pcanvas = 0, px = 0, py = 0, psize = 1, speedX = - 0.25, speedY = - 0.25,
       opacity = 0.2, color = None\<rparr>]"
  by (simp add: create_particles.simps[of 0] create_particles.simps[of "Suc 0"] case_prod_beta
      new_Particle_def reset_fields example_world_def resizeCanvas_def Let_def
      particle.equality)

lemma example_field_value:
  "particles (snd example_field) =
     [\<lparr>pcanvas = 0, px = 800, py = 600, psize = 1, speedX = - 0.25, speedY = - 0.25,
       opacity = 0.2, color = None\<rparr>]"
  "store (fst example_field) 0 = \<lparr>width = 800, height = 600\<rparr>"
  "canvas_of (snd example_field) = 0"
  using binary64_dyadic[of "- 1" 2]
  by (simp_all add: example_field_def init_proj example_created create_particles_store
      store_resizeCanvas update_def Let_def, simp_all add: example_world_def)

lemma example_new:
  "new_ParticleSystem example_world ''particleCanvas'' 1 = Inr example_field"
  by (simp add: new_ParticleSystem_def example_field_def example_world_def)

lemma handle_proj:
  "handle Frame ws = (fst ws, animate (fst ws) (snd ws))"
  "handle (Resize iw ih) ws =
     (resizeCanvas ((fst ws)\<lparr>innerWidth := iw, innerHeight := ih\<rparr>) (snd ws), snd ws)"
  "handle (UpdateColor col) ws = (fst ws, updateColor col (snd ws))"
  by (cases ws; simp)+

lemma example_resized:
  "particles (snd (run [Resize 400 300] example_field)) = particles (snd example_field)"
  "store (fst (run [Resize 400 300] example_field)) 0 = \<lparr>width = 400, height = 300\<rparr>"
  by (simp_all add: handle_proj example_field_value resizeCanvas_def Let_def)

lemma example_resized_frame:
  "particles (snd (run [Resize 400 300, Frame] example_field)) =
     [\<lparr>pcanvas = 0, px = 0, py = 0, psize = 1, speedX = - 0.25, speedY = - 0.25,
       opacity = 0.2, color = None\<rparr>]"
  "store (fst (run [Resize 400 300, Frame] example_field)) 0 = \<lparr>width = 400, height = 300\<rparr>"
  "canvas_of (snd (run [Resize 400 300, Frame] example_field)) = 0"
  using binary64_dyadic[of 3199 2] binary64_dyadic[of 2399 2]
  by (simp_all add: handle_proj example_field_value resizeCanvas_def Let_def particles_animate
       canvas_of_animate update_def)

lemma update_cong_store: "st (pcanvas p) = st' (pcanvas p) \<Longrightarrow> update st p = update st' p"
  by (simp add: update_def Let_def)

lemma particleCount_handle: "particleCount (snd (handle e ws)) = particleCount (snd ws)"
  by (cases e) (simp_all add: handle_proj particleCount_animate updateColor_def)

lemma particleCount_run: "particleCount (snd (run es ws)) = particleCount (snd ws)"
  by (induction es arbitrary: ws) (simp_all add: particleCount_handle)

lemma canvas_of_handle: "canvas_of (snd (handle e ws)) = canvas_of (snd ws)"
  by (cases e) (simp_all add: handle_proj canvas_of_animate updateColor_def)

lemma canvas_of_run: "canvas_of (snd (run es ws)) = canvas_of (snd ws)"
  by (induction es arbitrary: ws) (simp_all add: canvas_of_handle)

lemma store_run_no_resize: "no_resize es \<Longrightarrow> store (fst (run es ws)) = store (fst ws)"
proof (induction es arbitrary: ws)
  case Nil
  show ?case by simp
next
  case (Cons e es)
  then show ?case
    by (cases e) (simp_all add: no_resize_def handle_proj)
qed

lemma new_ParticleSystem_count:
  "new_ParticleSystem w cid n = Inr ws \<Longrightarrow> particleCount (snd ws) = n"
  by (auto simp: new_ParticleSystem_def init_proj split: option.splits)

lemma drawConnections_eq:
  "drawConnections ps ops =
     ops @ map (\<lambda>(i, j). stroke ps i j) (concat (map (close_from ps) [0..<length ps]))"
  by (simp add: drawConnections_def connect_outer_eq)

lemma sqrt_square_diff: "sqrt (d * d) = \<bar>d\<bar>"
  by (simp add: power2_eq_square[symmetric])

lemma close_pair_drawn:
  assumes "i < j" "j < length ps" "distance (ps ! i) (ps ! j) < maxDistance"
  shows "stroke ps i j \<in> set (drawConnections ps ops)"
proof -
  have "(i, j) \<in> close_pairs ps"
    using assms by (simp add: close_pairs_def)
  then have "(i, j) \<in> set (concat (map (close_from ps) [0..<length ps]))"
    by (simp only: set_close_all)
  then have "(\<lambda>(i, j). stroke ps i j) (i, j) \<in>
      (\<lambda>(i, j). stroke ps i j) ` set (concat (map (close_from ps) [0..<length ps]))"
    by (rule imageI)
  then show ?thesis
    by (simp only: drawConnections_eq set_append set_map prod.case UnI2)
qed

lemma drawConnections_two:
  "drawConnections [a, b] ops =
     (if distance a b < maxDistance
      then ops @ [StrokeLine (px a) (py a) (px b) (py b) (line_opacity (distance a b))]
      else ops)"
  by (simp add: drawConnections_eq close_from_def stroke_def upt_rec)



lemma reachable_invariant:
  "reachable tp \<Longrightarrow>
     themes (fst tp) = [''romantic'', ''vibrant''] \<and> currentThemeIndex (fst tp) < 2 \<and>
     currentTheme (snd tp) = themes (fst tp) ! currentThemeIndex (fst tp)"
proof (induction rule: reachable.induct)
  case (start w buttonId t a b)
  then show ?case
    by (auto simp: new_ThemeController_def split: option.splits)
next
  case (click tp)
  then show ?case
    by (simp add: toggle_def Let_def applyTheme_def numeral_2_eq_2)
qed

lemma toggle_fields:
  assumes "themes (fst tp) = [''romantic'', ''vibrant'']"
  shows "fst (toggle tp) = (fst tp)\<lparr>currentThemeIndex := (currentThemeIndex (fst tp) + 1) mod 2\<rparr>"
    and "currentTheme (snd (toggle tp)) =
           [''romantic'', ''vibrant''] ! ((currentThemeIndex (fst tp) + 1) mod 2)"
    and "data_theme (snd (toggle tp)) = Some (currentTheme (snd (toggle tp)))"
    and "button_active (snd (toggle tp)) = (currentTheme (snd (toggle tp)) = ''vibrant'')"
  using assms by (simp_all add: toggle_def Let_def applyTheme_def numeral_2_eq_2)

lemma start_reachable: "reachable (start_controller, start_page)"
  unfolding start_page_def
  by (rule reachable.start[of example_world "''modeBtn''"])
     (simp add: new_ThemeController_def example_world_def start_controller_def)

lemma binary64_err:
  "\<bar>binary64 x - x\<bar> \<le> \<bar>x\<bar> / 2 ^ 53 + 1 / 2 ^ 1075"
proof -
  have "(2::real) powi (emin - 53) = 1 / 2 ^ 1075"
    by (simp add: emin_def power_int_minus field_simps)
  then show ?thesis
    using binary64_error[of x] by simp
qed

lemma binary64_one: "binary64 1 = 1"
  using binary64_of_int[of 1] by simp

lemma b64_third: "binary64 (1 / 3) = 6004799503160661 / 2 ^ 54"
  by (subst binary64_eval[of "- 2"]) (simp_all add: emin_def rne_def Let_def)

lemma b64_two_thirds:
  "binary64 (1 - 6004799503160661 / 2 ^ 54) = 3002399751580331 / 2 ^ 52"
  by (subst binary64_eval[of "- 1"]) (simp_all add: emin_def rne_def Let_def)

lemma b64_fifth: "binary64 (1 / 5) = 3602879701896397 / 2 ^ 54"
  by (subst binary64_eval[of "- 3"]) (simp_all add: emin_def rne_def Let_def)

lemma b64_opacity_40:
  "binary64 (3002399751580331 / 2 ^ 52 * (3602879701896397 / 2 ^ 54)) =
     2401919801264265 / 2 ^ 54"
  by (subst binary64_eval[of "- 3"]) (simp_all add: emin_def rne_def Let_def)

lemma line_opacity_40: "line_opacity 40 = 2401919801264265 / 2 ^ 54"
proof -
  have "(40::real) / 120 = 1 / 3" by simp
  then show ?thesis
    unfolding line_opacity_def maxDistance_def
    by (simp only: b64_third b64_two_thirds b64_fifth b64_opacity_40)
qed

lemma line_opacity_120: "line_opacity 120 = 0"
  by (simp add: line_opacity_def maxDistance_def binary64_one binary64_zero)

lemma line_opacity_antimono:
  assumes "d1 \<le> d2"
  shows "line_opacity d2 \<le> line_opacity d1"
proof -
  have "binary64 (d1 / 120) \<le> binary64 (d2 / 120)"
    using assms by (intro binary64_mono) simp
  then have "binary64 (1 - binary64 (d2 / 120)) \<le> binary64 (1 - binary64 (d1 / 120))"
    by (intro binary64_mono) simp
  moreover have "0 \<le> binary64 (1 / 5)"
    by (intro binary64_nonneg) simp
  ultimately have "binary64 (1 - binary64 (d2 / 120)) * binary64 (1 / 5)
      \<le> binary64 (1 - binary64 (d1 / 120)) * binary64 (1 / 5)"
    by (rule mult_right_mono)
  then show ?thesis
    unfolding line_opacity_def maxDistance_def by (rule binary64_mono)
qed

lemma line_opacity_close:
  assumes "0 \<le> d" "d \<le> 120"
  shows "\<bar>line_opacity d - (1 - d / 120) * (1 / 5)\<bar> \<le> 1 / 2 ^ 50"
proof -
  define e :: real where "e = 2 / 2 ^ 53"
  define t where "t = binary64 (d / 120)"
  define s where "s = binary64 (1 - t)"
  define c where "c = binary64 (1 / 5)"
  define v where "v = binary64 (s * c)"
  have e: "0 \<le> e" "e \<le> 4 / 5" "4 * e \<le> 1 / 2 ^ 50"
    by (simp_all add: e_def)
  have near: "\<bar>binary64 x - x\<bar> \<le> e" if "\<bar>x\<bar> \<le> 1" for x
  proof -
    have "(\<bar>x\<bar> + 1) / 2 ^ 53 \<le> (1 + 1) / 2 ^ 53"
      using that by (intro divide_right_mono) simp_all
    then show ?thesis
      using binary64_near[of x] by (simp add: e_def)
  qed
  have t0: "0 \<le> t" unfolding t_def using assms by (intro binary64_nonneg) simp
  have "t \<le> binary64 1" unfolding t_def using assms by (intro binary64_mono) simp
  then have t1: "t \<le> 1" by (simp add: binary64_one)
  have te: "\<bar>t - d / 120\<bar> \<le> e"
    unfolding t_def using assms by (intro near) simp
  have s0: "0 \<le> s" unfolding s_def using t1 by (intro binary64_nonneg) simp
  have "s \<le> binary64 1" unfolding s_def using t0 by (intro binary64_mono) simp
  then have s1: "s \<le> 1" by (simp add: binary64_one)
  have se: "\<bar>s - (1 - t)\<bar> \<le> e"
    unfolding s_def using t0 t1 by (intro near) simp
  have ce: "\<bar>c - 1 / 5\<bar> \<le> e"
    unfolding c_def by (intro near) simp
  have c0: "0 \<le> c" unfolding c_def by (intro binary64_nonneg) simp
  have c1: "c \<le> 1" using ce e by linarith
  have sc: "0 \<le> s * c" "s * c \<le> 1"
    using s0 s1 c0 c1 by (simp_all add: mult_le_one)
  have oe: "\<bar>v - s * c\<bar> \<le> e"
    unfolding v_def using sc by (intro near) simp
  have "s * c - s * (1 / 5) = s * (c - 1 / 5)"
    by (simp add: right_diff_distrib)
  then have "\<bar>s * c - s * (1 / 5)\<bar> = \<bar>s\<bar> * \<bar>c - 1 / 5\<bar>"
    by (simp only: abs_mult)
  also have "\<dots> = s * \<bar>c - 1 / 5\<bar>"
    using s0 by simp
  also have "\<dots> \<le> 1 * e"
    using s0 s1 ce by (intro mult_mono) simp_all
  finally have m: "\<bar>s * c - s * (1 / 5)\<bar> \<le> e" by simp
  have "v - (1 - d / 120) * (1 / 5) =
      (v - s * c) + (s * c - s * (1 / 5)) + (s - (1 - t)) * (1 / 5) - (t - d / 120) * (1 / 5)"
    by (simp add: field_simps)
  moreover have "\<bar>(s - (1 - t)) * (1 / 5)\<bar> \<le> e" "\<bar>(t - d / 120) * (1 / 5)\<bar> \<le> e"
    using se te e(1) by (simp_all add: abs_mult)
  ultimately have "\<bar>v - (1 - d / 120) * (1 / 5)\<bar> \<le> 4 * e"
    using oe m by linarith
  moreover have "line_opacity d = v"
    by (simp add: line_opacity_def maxDistance_def s_def t_def c_def v_def)
  ultimately show ?thesis
    using e(3) by linarith
qed

lemma sqrt_square_num: "0 \<le> x \<Longrightarrow> sqrt (x * x) = x"
  by (simp add: sqrt_square_diff)

lemma near_pair_distance:
  assumes "px a = 10" "py a = 10" "px b = 10" "py b = 50"
  shows "distance a b = 40"
proof -
  have s: "sqrt 1600 = 40"
    using sqrt_square_num[of 40] by simp
  show ?thesis
    using binary64_of_int[of 0] binary64_of_int[of "- 40"] binary64_of_int[of 1600]
      binary64_of_int[of 40]
    by (simp add: distance_def Let_def assms s)
qed

lemma far_pair_distance:
  assumes "px a = 10" "py a = 10" "px b = 10" "py b = 210"
  shows "distance a b = 200"
proof -
  have s: "sqrt 40000 = 200"
    using sqrt_square_num[of 200] by simp
  show ?thesis
    using binary64_of_int[of 0] binary64_of_int[of "- 200"] binary64_of_int[of 40000]
      binary64_of_int[of 200]
    by (simp add: distance_def Let_def assms s)
qed

lemma square_upper:
  fixes r A u \<tau> M :: real
  assumes "\<bar>r\<bar> \<le> (1 + u) * A + \<tau>" "0 \<le> A" "A \<le> M" "0 \<le> u" "u \<le> 1" "0 \<le> \<tau>" "\<tau> \<le> 1"
  shows "r * r \<le> (1 + u) * (1 + u) * (A * A) + (4 * M + 1) * \<tau>"
proof -
  define B where "B = (1 + u) * A"
  have B0: "0 \<le> B" using assms by (simp add: B_def)
  have "B \<le> 2 * M"
    unfolding B_def using assms by (intro mult_mono) simp_all
  then have "B * \<tau> \<le> 2 * M * \<tau>"
    using assms(6) by (rule mult_right_mono)
  moreover have "\<tau> * \<tau> \<le> 1 * \<tau>"
    using assms(6,7) by (intro mult_right_mono) simp_all
  moreover have "r * r = \<bar>r\<bar> * \<bar>r\<bar>" by simp
  moreover have "\<bar>r\<bar> * \<bar>r\<bar> \<le> (B + \<tau>) * (B + \<tau>)"
    using assms(1) B0 assms(6) unfolding B_def by (intro mult_mono) simp_all
  moreover have "(B + \<tau>) * (B + \<tau>) = B * B + 2 * (B * \<tau>) + \<tau> * \<tau>"
    by (simp add: algebra_simps)
  moreover have "B * B = (1 + u) * (1 + u) * (A * A)"
    by (simp add: B_def algebra_simps)
  ultimately show ?thesis
    by (simp add: algebra_simps)
qed

lemma square_lower:
  fixes r A u \<tau> M :: real
  assumes "(1 - u) * A - \<tau> \<le> \<bar>r\<bar>" "0 \<le> A" "A \<le> M" "0 \<le> u" "u \<le> 1" "0 \<le> \<tau>"
  shows "(1 - u) * (1 - u) * (A * A) - 2 * M * \<tau> \<le> r * r"
proof -
  define C where "C = (1 - u) * A"
  have C0: "0 \<le> C" using assms by (simp add: C_def)
  have "C \<le> 1 * A" unfolding C_def using assms by (intro mult_right_mono) simp_all
  then have CM: "C \<le> M" using assms(3) by simp
  have CC: "C * C = (1 - u) * (1 - u) * (A * A)"
    by (simp add: C_def algebra_simps)
  have rr: "r * r = \<bar>r\<bar> * \<bar>r\<bar>" by simp
  have Ct: "C * \<tau> \<le> M * \<tau>"
    using CM assms(6) by (rule mult_right_mono)
  show ?thesis
  proof (cases "\<tau> \<le> C")
    case True
    have "(C - \<tau>) * (C - \<tau>) \<le> \<bar>r\<bar> * \<bar>r\<bar>"
      using assms(1) True unfolding C_def by (intro mult_mono) simp_all
    moreover have "(C - \<tau>) * (C - \<tau>) = C * C - 2 * (C * \<tau>) + \<tau> * \<tau>"
      by (simp add: algebra_simps)
    moreover have "0 \<le> \<tau> * \<tau>" by simp
    ultimately show ?thesis
      using Ct unfolding CC[symmetric] rr by linarith
  next
    case False
    then have "C * C \<le> C * \<tau>"
      using C0 by (intro mult_left_mono) simp_all
    moreover have "0 \<le> \<bar>r\<bar> * \<bar>r\<bar>" by simp
    moreover have "0 \<le> M * \<tau>"
      using assms by simp
    ultimately show ?thesis
      using Ct unfolding CC[symmetric] rr by linarith
  qed
qed

lemma rounded_square:
  fixes a :: real
  assumes "\<bar>a\<bar> \<le> 2 ^ 40"
  shows "0 \<le> binary64 (binary64 a * binary64 a)"
    and "binary64 (binary64 a * binary64 a) \<le> (1 + 4 / 2 ^ 53) * (a * a) + 1 / 2 ^ 1030"
    and "(1 - 4 / 2 ^ 53) * (a * a) - 1 / 2 ^ 1030 \<le> binary64 (binary64 a * binary64 a)"
proof -
  define r where "r = binary64 a"
  define P where "P = r * r"
  define p where "p = binary64 P"
  define X where "X = a * a"
  have X0: "0 \<le> X" by (simp add: X_def)
  have P0: "0 \<le> P" by (simp add: P_def)
  have e1: "\<bar>r - a\<bar> \<le> \<bar>a\<bar> / 2 ^ 53 + 1 / 2 ^ 1075"
    unfolding r_def by (rule binary64_err)
  have h1: "\<bar>r\<bar> \<le> (1 + 1 / 2 ^ 53) * \<bar>a\<bar> + 1 / 2 ^ 1075"
    using e1 by (simp add: algebra_simps; linarith?)
  have h2: "(1 - 1 / 2 ^ 53) * \<bar>a\<bar> - 1 / 2 ^ 1075 \<le> \<bar>r\<bar>"
    using e1 by (simp add: algebra_simps; linarith?)
  have aa: "\<bar>a\<bar> * \<bar>a\<bar> = X" by (simp add: X_def)
  have U: "P \<le> (1 + 1 / 2 ^ 53) * (1 + 1 / 2 ^ 53) * X + (4 * 2 ^ 40 + 1) * (1 / 2 ^ 1075)"
    unfolding P_def aa[symmetric]
    using h1 assms by (intro square_upper) simp_all
  have L: "(1 - 1 / 2 ^ 53) * (1 - 1 / 2 ^ 53) * X - 2 * 2 ^ 40 * (1 / 2 ^ 1075) \<le> P"
    unfolding P_def aa[symmetric]
    using h2 assms by (intro square_lower) simp_all
  have e2: "\<bar>p - P\<bar> \<le> P / 2 ^ 53 + 1 / 2 ^ 1075"
    using binary64_err[of P] P0 by (simp add: p_def)
  show "0 \<le> binary64 (binary64 a * binary64 a)"
    using P0 unfolding r_def[symmetric] P_def[symmetric] by (rule binary64_nonneg)
  have "p \<le> (1 + 4 / 2 ^ 53) * X + 1 / 2 ^ 1030"
    using U e2 X0 by (simp add: algebra_simps; linarith?)
  then show "binary64 (binary64 a * binary64 a) \<le> (1 + 4 / 2 ^ 53) * (a * a) + 1 / 2 ^ 1030"
    by (simp add: p_def P_def r_def X_def)
  have "(1 - 4 / 2 ^ 53) * X - 1 / 2 ^ 1030 \<le> p"
    using L e2 X0 by (simp add: algebra_simps; linarith?)
  then show "(1 - 4 / 2 ^ 53) * (a * a) - 1 / 2 ^ 1030 \<le> binary64 (binary64 a * binary64 a)"
    by (simp add: p_def P_def r_def X_def)
qed

lemma sqrt_scaled_le:
  fixes c D :: real
  assumes "1 \<le> c" "0 \<le> D"
  shows "sqrt (c * D) \<le> c * sqrt D"
proof -
  have "sqrt c \<le> c"
    using assms(1) by (intro real_le_lsqrt) (simp_all add: power2_eq_square mult_le_cancel_left1)
  then have "sqrt c * sqrt D \<le> c * sqrt D"
    using assms(2) by (intro mult_right_mono) simp_all
  then show ?thesis by (simp add: real_sqrt_mult)
qed

lemma sqrt_scaled_ge:
  fixes c D :: real
  assumes "0 \<le> c" "c \<le> 1" "0 \<le> D"
  shows "c * sqrt D \<le> sqrt (c * D)"
proof -
  have "c * c \<le> 1 * c"
    using assms by (intro mult_right_mono) simp_all
  then have "c \<le> sqrt c"
    by (intro real_le_rsqrt) (simp add: power2_eq_square)
  then have "c * sqrt D \<le> sqrt c * sqrt D"
    using assms(3) by (intro mult_right_mono) simp_all
  then show ?thesis by (simp add: real_sqrt_mult)
qed

lemma sqrt_tiny: "sqrt (1 / 2 ^ 1028) \<le> 1 / 2 ^ 514"
  by (intro real_le_lsqrt) (simp_all add: power2_eq_square)

lemma weaken_upper:
  fixes v c1 c2 k1 k2 D :: real
  assumes "v \<le> c1 * D + k1" "c1 \<le> c2" "k1 \<le> k2" "0 \<le> D"
  shows "v \<le> c2 * D + k2"
proof -
  have "c1 * D \<le> c2 * D" using assms(2,4) by (rule mult_right_mono)
  then show ?thesis using assms(1,3) by linarith
qed

lemma weaken_lower:
  fixes v c1 c2 k1 k2 D :: real
  assumes "c1 * D - k1 \<le> v" "c2 \<le> c1" "k1 \<le> k2" "0 \<le> D"
  shows "c2 * D - k2 \<le> v"
proof -
  have "c2 * D \<le> c1 * D" using assms(2,4) by (rule mult_right_mono)
  then show ?thesis using assms(1,3) by linarith
qed

lemma round_upper:
  fixes S c k D :: real
  assumes "0 \<le> S" "S \<le> c * D + k"
  shows "binary64 S \<le> ((1 + 1 / 2 ^ 53) * c) * D + ((1 + 1 / 2 ^ 53) * k + 1 / 2 ^ 1075)"
proof -
  have "binary64 S \<le> S + (S / 2 ^ 53 + 1 / 2 ^ 1075)"
    using binary64_err[of S] assms(1) by linarith
  also have "\<dots> = (1 + 1 / 2 ^ 53) * S + 1 / 2 ^ 1075"
    by (simp add: algebra_simps)
  also have "\<dots> \<le> (1 + 1 / 2 ^ 53) * (c * D + k) + 1 / 2 ^ 1075"
    using assms(2) by (intro add_mono mult_left_mono) simp_all
  also have "\<dots> = ((1 + 1 / 2 ^ 53) * c) * D + ((1 + 1 / 2 ^ 53) * k + 1 / 2 ^ 1075)"
    by (simp only: distrib_left mult.assoc add.assoc)
  finally show ?thesis .
qed

lemma round_lower:
  fixes S c k D :: real
  assumes "0 \<le> S" "c * D - k \<le> S"
  shows "((1 - 1 / 2 ^ 53) * c) * D - ((1 - 1 / 2 ^ 53) * k + 1 / 2 ^ 1075) \<le> binary64 S"
proof -
  have "((1 - 1 / 2 ^ 53) * c) * D - ((1 - 1 / 2 ^ 53) * k + 1 / 2 ^ 1075) =
      (1 - 1 / 2 ^ 53) * (c * D - k) - 1 / 2 ^ 1075"
    by (simp only: right_diff_distrib mult.assoc diff_diff_eq)
  also have "\<dots> \<le> (1 - 1 / 2 ^ 53) * S - 1 / 2 ^ 1075"
    using assms(2) by (intro diff_mono mult_left_mono) simp_all
  also have "\<dots> = S - (S / 2 ^ 53 + 1 / 2 ^ 1075)"
    by (simp add: algebra_simps)
  also have "\<dots> \<le> binary64 S"
    using binary64_err[of S] assms(1) by linarith
  finally show ?thesis .
qed

lemma distance_close:
  assumes "\<bar>px a - px b\<bar> \<le> 2 ^ 40" "\<bar>py a - py b\<bar> \<le> 2 ^ 40"
  shows "\<bar>distance a b - sqrt ((px a - px b) * (px a - px b) + (py a - py b) * (py a - py b))\<bar>
     \<le> sqrt ((px a - px b) * (px a - px b) + (py a - py b) * (py a - py b)) / 2 ^ 50
        + 1 / 2 ^ 512"
proof -
  define x where "x = px a - px b"
  define y where "y = py a - py b"
  define p1 where "p1 = binary64 (binary64 x * binary64 x)"
  define p2 where "p2 = binary64 (binary64 y * binary64 y)"
  define D where "D = x * x + y * y"
  define S where "S = p1 + p2"
  define s where "s = binary64 S"
  define r where "r = sqrt s"
  define d where "d = sqrt D"
  have D0: "0 \<le> D" by (simp add: D_def)
  have d0: "0 \<le> d" by (simp add: d_def D0)
  have b1: "0 \<le> p1" "p1 \<le> (1 + 4 / 2 ^ 53) * (x * x) + 1 / 2 ^ 1030"
    "(1 - 4 / 2 ^ 53) * (x * x) - 1 / 2 ^ 1030 \<le> p1"
    unfolding p1_def using assms(1) by (intro rounded_square; simp add: x_def)+
  have b2: "0 \<le> p2" "p2 \<le> (1 + 4 / 2 ^ 53) * (y * y) + 1 / 2 ^ 1030"
    "(1 - 4 / 2 ^ 53) * (y * y) - 1 / 2 ^ 1030 \<le> p2"
    unfolding p2_def using assms(2) by (intro rounded_square; simp add: y_def)+
  have S0: "0 \<le> S" using b1(1) b2(1) by (simp add: S_def)
  have "S \<le> ((1 + 4 / 2 ^ 53) * (x * x) + 1 / 2 ^ 1030) + ((1 + 4 / 2 ^ 53) * (y * y) + 1 / 2 ^ 1030)"
    unfolding S_def by (intro add_mono b1 b2)
  also have "\<dots> = (1 + 4 / 2 ^ 53) * D + 2 / 2 ^ 1030"
    unfolding D_def by (simp only: distrib_left; simp?)
  finally have SU: "S \<le> (1 + 4 / 2 ^ 53) * D + 2 / 2 ^ 1030" .
  have "(1 - 4 / 2 ^ 53) * D - 2 / 2 ^ 1030 =
      ((1 - 4 / 2 ^ 53) * (x * x) - 1 / 2 ^ 1030) + ((1 - 4 / 2 ^ 53) * (y * y) - 1 / 2 ^ 1030)"
    unfolding D_def by (simp only: distrib_left; simp?)
  also have "\<dots> \<le> S"
    unfolding S_def by (intro add_mono b1 b2)
  finally have SL: "(1 - 4 / 2 ^ 53) * D - 2 / 2 ^ 1030 \<le> S" .
  have s0: "0 \<le> s" unfolding s_def using S0 by (rule binary64_nonneg)
  have sU: "s \<le> (1 + 6 / 2 ^ 53) * D + 1 / 2 ^ 1028"
    unfolding s_def
    by (rule weaken_upper[OF round_upper[OF S0 SU]]) (simp_all add: D0)
  have sL': "(1 - 6 / 2 ^ 53) * D - 1 / 2 ^ 1028 \<le> s"
    unfolding s_def
    by (rule weaken_lower[OF round_lower[OF S0 SL]]) (simp_all add: D0)
  then have sL: "(1 - 6 / 2 ^ 53) * D \<le> s + 1 / 2 ^ 1028" by linarith
  have "r \<le> sqrt ((1 + 6 / 2 ^ 53) * D + 1 / 2 ^ 1028)"
    unfolding r_def using sU by (rule real_sqrt_le_mono)
  also have "\<dots> \<le> sqrt ((1 + 6 / 2 ^ 53) * D) + sqrt (1 / 2 ^ 1028)"
    using D0 by (intro sqrt_add_le_add_sqrt) simp_all
  also have "\<dots> \<le> (1 + 6 / 2 ^ 53) * d + 1 / 2 ^ 514"
    unfolding d_def using D0 sqrt_tiny by (intro add_mono sqrt_scaled_le) simp_all
  finally have rU: "r \<le> (1 + 6 / 2 ^ 53) * d + 1 / 2 ^ 514" .
  have "(1 - 6 / 2 ^ 53) * d \<le> sqrt ((1 - 6 / 2 ^ 53) * D)"
    unfolding d_def using D0 by (intro sqrt_scaled_ge) simp_all
  also have "\<dots> \<le> sqrt (s + 1 / 2 ^ 1028)"
    using sL by (rule real_sqrt_le_mono)
  also have "\<dots> \<le> sqrt s + sqrt (1 / 2 ^ 1028)"
    using s0 by (intro sqrt_add_le_add_sqrt) simp_all
  also have "\<dots> \<le> r + 1 / 2 ^ 514"
    unfolding r_def using sqrt_tiny by simp
  finally have "(1 - 6 / 2 ^ 53) * d - 1 / 2 ^ 514 \<le> r" by linarith
  note rL = this
  have r0: "0 \<le> r" by (simp add: r_def s0)
  have dU: "binary64 r \<le> (1 + 1 / 2 ^ 50) * d + 1 / 2 ^ 512"
    by (rule weaken_upper[OF round_upper[OF r0 rU]]) (simp_all add: d0)
  have dL: "(1 - 1 / 2 ^ 50) * d - 1 / 2 ^ 512 \<le> binary64 r"
    by (rule weaken_lower[OF round_lower[OF r0 rL]]) (simp_all add: d0)
  have "binary64 r - d \<le> d / 2 ^ 50 + 1 / 2 ^ 512"
    using dU by (simp add: algebra_simps)
  moreover have "- (d / 2 ^ 50 + 1 / 2 ^ 512) \<le> binary64 r - d"
    using dL by (simp add: algebra_simps)
  ultimately have "\<bar>binary64 r - d\<bar> \<le> d / 2 ^ 50 + 1 / 2 ^ 512"
    by (simp only: abs_le_iff) simp
  moreover have "distance a b = binary64 r"
    by (simp add: distance_def Let_def r_def s_def S_def p1_def p2_def x_def y_def)
  ultimately show ?thesis
    by (simp add: d_def D_def x_def y_def)
qed

lemma threshold_distance:
  assumes "px a = 0" "py a = 0" "px b = 8444249301319679 / 2 ^ 46" "py b = 7 / 2 ^ 22"
  shows "distance a b = 120"
proof -
  have dx: "binary64 (0 - 8444249301319679 / 2 ^ 46) = - (8444249301319679 / 2 ^ 46)"
    using binary64_dyadic[of "- 8444249301319679" 46] by simp
  have dy: "binary64 (0 - 7 / 2 ^ 22) = - (7 / 2 ^ 22)"
    using binary64_dyadic[of "- 7" 22] by simp
  have p1: "binary64 (- (8444249301319679 / 2 ^ 46) * - (8444249301319679 / 2 ^ 46)) =
      3958241859993599 / 2 ^ 38"
    by (subst binary64_eval[of 13]) (simp_all add: emin_def rne_def Let_def)
  have p2: "binary64 (- (7 / 2 ^ 22) * - (7 / 2 ^ 22)) = 49 / 2 ^ 44"
    using binary64_dyadic[of 49 44] by simp
  have s: "binary64 (3958241859993599 / 2 ^ 38 + 49 / 2 ^ 44) = 14400"
    by (subst binary64_eval[of 13]) (simp_all add: emin_def rne_def Let_def)
  have q: "sqrt 14400 = 120"
    using sqrt_square_num[of 120] by simp
  have r: "binary64 120 = 120"
    using binary64_of_int[of 120] by simp
  show ?thesis
    unfolding distance_def Let_def assms
    by (simp only: dx dy p1 p2 s q r)
qed

lemma threshold_euclid:
  "sqrt ((0 - 8444249301319679 / 2 ^ 46) * (0 - 8444249301319679 / 2 ^ 46) +
         (0 - 7 / 2 ^ 22) * (0 - 7 / 2 ^ 22)) < (120::real)"
proof -
  have "(0 - 8444249301319679 / 2 ^ 46) * (0 - 8444249301319679 / 2 ^ 46) +
         (0 - 7 / 2 ^ 22) * (0 - 7 / 2 ^ 22) < (120::real) * 120"
    by simp
  then have "sqrt ((0 - 8444249301319679 / 2 ^ 46) * (0 - 8444249301319679 / 2 ^ 46) +
         (0 - 7 / 2 ^ 22) * (0 - 7 / 2 ^ 22)) < sqrt ((120::real) * 120)"
    by (simp only: real_sqrt_less_iff)
  moreover have "sqrt ((120::real) * 120) = 120"
    by simp
  ultimately show ?thesis
    by linarith
qed

lemma euclid_bounds:
  fixes x y :: real
  shows "\<bar>x\<bar> \<le> sqrt (x * x + y * y)" "\<bar>y\<bar> \<le> sqrt (x * x + y * y)"
proof -
  have "sqrt (x * x) \<le> sqrt (x * x + y * y)" by (intro real_sqrt_le_mono) simp
  then show "\<bar>x\<bar> \<le> sqrt (x * x + y * y)" by simp
  have "sqrt (y * y) \<le> sqrt (x * x + y * y)" by (intro real_sqrt_le_mono) simp
  then show "\<bar>y\<bar> \<le> sqrt (x * x + y * y)" by simp
qed

lemma distance_below:
  assumes "sqrt ((px a - px b) * (px a - px b) + (py a - py b) * (py a - py b)) \<le> 11999 / 100"
  shows "distance a b < 120"
proof -
  define d where "d = sqrt ((px a - px b) * (px a - px b) + (py a - py b) * (py a - py b))"
  have d: "d \<le> 11999 / 100" using assms by (simp add: d_def)
  have "\<bar>px a - px b\<bar> \<le> d" "\<bar>py a - py b\<bar> \<le> d"
    unfolding d_def by (rule euclid_bounds)+
  then have "\<bar>px a - px b\<bar> \<le> 2 ^ 40" "\<bar>py a - py b\<bar> \<le> 2 ^ 40"
    using d by simp_all
  then have "\<bar>distance a b - d\<bar> \<le> d / 2 ^ 50 + 1 / 2 ^ 512"
    unfolding d_def by (rule distance_close)
  moreover have "d / 2 ^ 50 \<le> (11999 / 100) / 2 ^ 50"
    using d by (rule divide_right_mono) simp
  moreover have "(11999 / 100) / 2 ^ 50 + 1 / 2 ^ 512 < (1 / 100 :: real)"
    by simp
  ultimately show ?thesis
    using d by linarith
qed

lemma distance_above:
  assumes "\<bar>px a - px b\<bar> \<le> 2 ^ 40" "\<bar>py a - py b\<bar> \<le> 2 ^ 40"
    and "12001 / 100 \<le> sqrt ((px a - px b) * (px a - px b) + (py a - py b) * (py a - py b))"
  shows "120 < distance a b"
proof -
  define d where "d = sqrt ((px a - px b) * (px a - px b) + (py a - py b) * (py a - py b))"
  have d: "12001 / 100 \<le> d" using assms(3) by (simp add: d_def)
  have e: "\<bar>distance a b - d\<bar> \<le> d / 2 ^ 50 + 1 / 2 ^ 512"
    unfolding d_def using assms(1,2) by (rule distance_close)
  have "d - d / 2 ^ 50 = (1 - 1 / 2 ^ 50) * d"
    by (simp add: algebra_simps)
  also have "\<dots> \<ge> (1 - 1 / 2 ^ 50) * (12001 / 100)"
    using d by (intro mult_left_mono) simp_all
  finally have "(1 - 1 / 2 ^ 50) * (12001 / 100) \<le> d - d / 2 ^ 50" .
  moreover have "(120::real) + 1 / 2 ^ 512 < (1 - 1 / 2 ^ 50) * (12001 / 100)"
    by simp
  ultimately show ?thesis
    using e by linarith
qed

lemma close_pairs_explicit:
  "close_pairs ps = {(i, j). i < j \<and> j < length ps \<and> distance (ps ! i) (ps ! j) < 120}"
  by (simp add: close_pairs_def maxDistance_def)

lemma stroke_explicit:
  "(\<lambda>(i, j). stroke ps i j) =
   (\<lambda>(i, j). StrokeLine (px (ps ! i)) (py (ps ! i)) (px (ps ! j)) (py (ps ! j))
      (line_opacity (distance (ps ! i) (ps ! j))))"
  by (simp add: stroke_def fun_eq_iff)

lemma line_opacity_strict:
  assumes "0 \<le> d1" "d1 + 1 / 2 ^ 38 \<le> d2" "d2 \<le> 120"
  shows "line_opacity d2 < line_opacity d1"
proof -
  have d1: "d1 \<le> 120" and d2: "0 \<le> d2"
    using assms by simp_all
  have "(1 - d1 / 120) * (1 / 5) - (1 - d2 / 120) * (1 / 5) = (d2 - d1) / 600"
    by (simp add: field_simps)
  moreover have "(1 / 2 ^ 38) / 600 \<le> (d2 - d1) / 600"
    using assms(2) by (intro divide_right_mono) simp_all
  moreover have "(2 :: real) / 2 ^ 50 < (1 / 2 ^ 38) / 600"
    by simp
  ultimately show ?thesis
    using line_opacity_close[OF assms(1) d1] line_opacity_close[OF d2 assms(3)]
    by linarith
qed

lemma near_pair_lines:
  assumes "px a = 10" "py a = 10" "px b = 10" "py b = 50"
  shows "drawConnections [a, b] ops = ops @ [StrokeLine 10 10 10 50 (2401919801264265 / 2 ^ 54)]"
  using assms near_pair_distance[OF assms]
  by (simp add: drawConnections_two maxDistance_def line_opacity_40)

lemma still_sum: "binary64 (100 + 1 / 2 ^ 53) = 100"
  by (subst binary64_eval[of 6]) (simp_all add: emin_def rne_def Let_def)

subsection \<open>Claims\<close>

text \<open>
  C1 as stated fails. In a window of 800 by 600 with every random draw equal to 0, the one
  particle of the field starts at (0, 0) with velocity (-0.25, -0.25); the frame that \<open>init\<close>
  runs moves it below 0 on both axes and sets it to (800, 600). Its \<open>x\<close> is the width of
  the canvas, not less.
\<close>

theorem wrap_reaches_width:
  "new_ParticleSystem example_world ''particleCanvas'' 1 = Inr example_field \<and>
   length (particles (snd example_field)) = 1 \<and>
   \<not> px (particles (snd example_field) ! 0)
       < real (width (store (fst example_field) (canvas_of (snd example_field))))"
  using example_new by (simp add: example_field_value)

text \<open>
  C1, as the code has it. After the construction of the field and after every frame, as
  long as no resize has happened since the last frame, every particle of the field has
  \<open>0 \<le> x \<le> width\<close> and \<open>0 \<le> y \<le> height\<close> for the current dimensions of the
  canvas. Both ends are included: a coordinate that falls below 0 is set to the dimension
  itself.
\<close>

theorem positions_within_closed_bounds:
  assumes "new_ParticleSystem w cid n = Inr ws0"
    and "run es ws0 = (w1, s1)"
    and "\<not> resize_pending False es"
    and "p \<in> set (particles s1)"
  shows "0 \<le> px p \<and> px p \<le> real (width (store w1 (canvas_of s1))) \<and>
         0 \<le> py p \<and> py p \<le> real (height (store w1 (canvas_of s1)))"
proof -
  have "aliased (snd ws0)"
    using assms(1) new_ParticleSystem_Inr by blast
  moreover have "in_bounds ws0"
    using assms(1) by (rule in_bounds_new)
  ultimately have "in_bounds (run es ws0)"
    using assms(3) by (intro in_bounds_run[where b = False]) simp_all
  then show ?thesis
    using assms(2,4) by (simp add: in_bounds_def list_all_iff)
qed

theorem positions_within_closed_bounds_witness:
  "new_ParticleSystem example_world ''particleCanvas'' 1 = Inr example_field \<and>
   \<not> resize_pending False [Resize 400 300, Frame] \<and>
   particles (snd (run [Resize 400 300, Frame] example_field)) \<noteq> [] \<and>
   0 \<le> px (hd (particles (snd (run [Resize 400 300, Frame] example_field)))) \<and>
   px (hd (particles (snd (run [Resize 400 300, Frame] example_field)))) \<le> 400"
  using example_new
    positions_within_closed_bounds[OF example_new, of "[Resize 400 300, Frame]"
      "fst (run [Resize 400 300, Frame] example_field)"
      "snd (run [Resize 400 300, Frame] example_field)"
      "hd (particles (snd (run [Resize 400 300, Frame] example_field)))"]
  by (simp only: example_resized_frame) simp

text \<open>
  C2. One call of \<open>update\<close> adds the velocity to the position (the binary64 sum, within
  half a unit in the last place of the exact one) and then wraps each axis on its own: a
  coordinate that exceeds the dimension of the canvas becomes 0, one that is below 0 becomes
  the dimension, and any other is kept. On a canvas less than \<open>2 ^ 32\<close> wide, a particle
  at \<open>x = width - 0.1\<close> (or any Number within 0.01 of it) with \<open>speedX = 1\<close> is at
  \<open>x = 0\<close> after one step.
\<close>

theorem update_adds_velocity_then_wraps:
  "(real (width (st (pcanvas p))) < binary64 (px p + speedX p) \<longrightarrow> px (update st p) = 0) \<and>
   (binary64 (px p + speedX p) < 0 \<longrightarrow> px (update st p) = real (width (st (pcanvas p)))) \<and>
   (0 \<le> binary64 (px p + speedX p) \<and>
    binary64 (px p + speedX p) \<le> real (width (st (pcanvas p))) \<longrightarrow>
      px (update st p) = binary64 (px p + speedX p)) \<and>
   (real (height (st (pcanvas p))) < binary64 (py p + speedY p) \<longrightarrow> py (update st p) = 0) \<and>
   (binary64 (py p + speedY p) < 0 \<longrightarrow> py (update st p) = real (height (st (pcanvas p)))) \<and>
   (0 \<le> binary64 (py p + speedY p) \<and>
    binary64 (py p + speedY p) \<le> real (height (st (pcanvas p))) \<longrightarrow>
      py (update st p) = binary64 (py p + speedY p)) \<and>
   \<bar>binary64 (px p + speedX p) - (px p + speedX p)\<bar>
     \<le> \<bar>px p + speedX p\<bar> / 2 ^ 53 + 2 powi (emin - 53) \<and>
   \<bar>binary64 (py p + speedY p) - (py p + speedY p)\<bar>
     \<le> \<bar>py p + speedY p\<bar> / 2 ^ 53 + 2 powi (emin - 53) \<and>
   (\<bar>px p - (real (width (st (pcanvas p))) - 1 / 10)\<bar> \<le> 1 / 100 \<and> speedX p = 1 \<and>
    width (st (pcanvas p)) < 2 ^ 32 \<longrightarrow> px (update st p) = 0)"
proof -
  have ex: "px (update st p) = 0"
    if h: "\<bar>px p - (real (width (st (pcanvas p))) - 1 / 10)\<bar> \<le> 1 / 100" "speedX p = 1"
      "width (st (pcanvas p)) < 2 ^ 32"
  proof -
    let ?w = "real (width (st (pcanvas p)))"
    have "?w < real (2 ^ 32)"
      using h(3) by (simp only: of_nat_less_iff)
    then have w: "0 \<le> ?w" "?w \<le> 2 ^ 32"
      by simp_all
    have lo: "?w + 89 / 100 \<le> px p + 1"
      using h(1) by linarith
    have hi: "\<bar>px p + 1\<bar> \<le> 2 ^ 32 + 2"
      using h(1) w by linarith
    have "(\<bar>px p + 1\<bar> + 1) / 2 ^ 53 \<le> 1 / 100"
      using hi by simp
    then have "\<bar>binary64 (px p + 1) - (px p + 1)\<bar> \<le> 1 / 100"
      using binary64_near[of "px p + 1"] by linarith
    then have "?w < binary64 (px p + 1)"
      using lo by linarith
    then show ?thesis
      by (simp add: update_px h(2))
  qed
  show ?thesis
    using binary64_error[of "px p + speedX p"] binary64_error[of "py p + speedY p"] ex
    by (simp add: update_px update_py)
qed

theorem update_adds_velocity_then_wraps_witness:
  "px (update square_store edge_particle) = 0 \<and>
   py (update square_store edge_particle) = 100 \<and>
   px (update square_store low_particle) = 100 \<and>
   py (update square_store low_particle) = 50.25 \<and>
   px (update square_store mid_particle) = 50.25 \<and>
   py (update square_store mid_particle) = 0 \<and>
   px (update square_store still_particle) = 100"
  using update_adds_velocity_then_wraps[of square_store edge_particle]
    update_adds_velocity_then_wraps[of square_store low_particle]
    update_adds_velocity_then_wraps[of square_store mid_particle]
    update_adds_velocity_then_wraps[of square_store still_particle]
    binary64_dyadic[of 12915 7] binary64_dyadic[of "- 1" 3] binary64_dyadic[of 201 2]
    binary64_dyadic[of 807 3] binary64_dyadic[of 50 0] still_sum
  by (simp add: square_store_def edge_particle_def low_particle_def mid_particle_def
      still_particle_def)

text \<open>
  C3 as stated fails. For the two particles at (10, 10) and (10, 50) the distance computed
  is 40, and the opacity handed to the context is the binary64 value
  \<open>2401919801264265 / 2 ^ 54\<close> (0.13333333333333336), which is not \<open>2 / 15\<close>.
\<close>

theorem opacity_is_not_two_fifteenths:
  "distance (near_pair ! 0) (near_pair ! 1) = 40 \<and>
   drawConnections near_pair [] = [StrokeLine 10 10 10 50 (2401919801264265 / 2 ^ 54)] \<and>
   (2401919801264265 / 2 ^ 54 :: real) \<noteq> 2 / 15"
proof -
  have n: "near_pair = [near_pair ! 0, near_pair ! 1]"
    by (simp add: near_pair_def)
  have c: "px (near_pair ! 0) = 10" "py (near_pair ! 0) = 10"
    "px (near_pair ! 1) = 10" "py (near_pair ! 1) = 50"
    by (simp_all add: near_pair_def)
  have d: "distance (near_pair ! 0) (near_pair ! 1) = 40"
    using c by (rule near_pair_distance)
  have "drawConnections [near_pair ! 0, near_pair ! 1] [] =
      [] @ [StrokeLine 10 10 10 50 (2401919801264265 / 2 ^ 54)]"
    using c by (rule near_pair_lines)
  then have l: "drawConnections near_pair [] =
      [StrokeLine 10 10 10 50 (2401919801264265 / 2 ^ 54)]"
    using n by simp
  have "(2401919801264265 / 2 ^ 54 :: real) \<noteq> 2 / 15"
    by simp
  then show ?thesis
    using d l by blast
qed

text \<open>
  C3, as the code has it. \<open>distance\<close> is the Euclidean formula evaluated in binary64, and
  for coordinate differences up to \<open>2 ^ 40\<close> it is within one part in \<open>2 ^ 50\<close> of the
  Euclidean distance. For every pair of particles \<open>i < j\<close> whose computed distance \<open>d\<close>
  is below 120, \<open>drawConnections\<close> strokes the segment between them with the opacity
  \<open>(1 - d / 120) * 0.2\<close> evaluated in binary64, which is within \<open>1 / 2 ^ 50\<close> of the exact
  value. That opacity never increases as \<open>d\<close> grows, decreases strictly between distances
  more than \<open>1 / 2 ^ 38\<close> apart, and is 0 at \<open>d = 120\<close>. For two particles at (10, 10)
  and (10, 50) the distance is 40 and the one line drawn has opacity
  \<open>2401919801264265 / 2 ^ 54\<close>.
\<close>

theorem connection_opacity:
  "distance a b =
     binary64 (sqrt (binary64
       (binary64 (binary64 (px a - px b) * binary64 (px a - px b)) +
        binary64 (binary64 (py a - py b) * binary64 (py a - py b))))) \<and>
   line_opacity d = binary64 (binary64 (1 - binary64 (d / 120)) * binary64 (1 / 5)) \<and>
   (\<bar>px a - px b\<bar> \<le> 2 ^ 40 \<and> \<bar>py a - py b\<bar> \<le> 2 ^ 40 \<longrightarrow>
      \<bar>distance a b - sqrt ((px a - px b) * (px a - px b) + (py a - py b) * (py a - py b))\<bar>
        \<le> sqrt ((px a - px b) * (px a - px b) + (py a - py b) * (py a - py b)) / 2 ^ 50
           + 1 / 2 ^ 512) \<and>
   (i < j \<and> j < length ps \<and> distance (ps ! i) (ps ! j) < 120 \<longrightarrow>
      StrokeLine (px (ps ! i)) (py (ps ! i)) (px (ps ! j)) (py (ps ! j))
        (line_opacity (distance (ps ! i) (ps ! j))) \<in> set (drawConnections ps ops)) \<and>
   (0 \<le> d \<and> d \<le> 120 \<longrightarrow> \<bar>line_opacity d - (1 - d / 120) * (1 / 5)\<bar> \<le> 1 / 2 ^ 50) \<and>
   (d1 \<le> d2 \<longrightarrow> line_opacity d2 \<le> line_opacity d1) \<and>
   (0 \<le> d1 \<and> d1 + 1 / 2 ^ 38 \<le> d2 \<and> d2 \<le> 120 \<longrightarrow> line_opacity d2 < line_opacity d1) \<and>
   line_opacity 120 = 0 \<and>
   (px a = 10 \<and> py a = 10 \<and> px b = 10 \<and> py b = 50 \<longrightarrow>
      distance a b = 40 \<and>
      drawConnections [a, b] ops = ops @ [StrokeLine 10 10 10 50 (2401919801264265 / 2 ^ 54)])"
proof (intro conjI impI)
  show "distance a b =
     binary64 (sqrt (binary64
       (binary64 (binary64 (px a - px b) * binary64 (px a - px b)) +
        binary64 (binary64 (py a - py b) * binary64 (py a - py b)))))"
    by (simp add: distance_def Let_def)
  show "line_opacity d = binary64 (binary64 (1 - binary64 (d / 120)) * binary64 (1 / 5))"
    by (simp add: line_opacity_def maxDistance_def)
next
  assume "\<bar>px a - px b\<bar> \<le> 2 ^ 40 \<and> \<bar>py a - py b\<bar> \<le> 2 ^ 40"
  then show "\<bar>distance a b - sqrt ((px a - px b) * (px a - px b) + (py a - py b) * (py a - py b))\<bar>
        \<le> sqrt ((px a - px b) * (px a - px b) + (py a - py b) * (py a - py b)) / 2 ^ 50
           + 1 / 2 ^ 512"
    by (intro distance_close) simp_all
next
  assume "i < j \<and> j < length ps \<and> distance (ps ! i) (ps ! j) < 120"
  then have "stroke ps i j \<in> set (drawConnections ps ops)"
    by (intro close_pair_drawn) (simp_all add: maxDistance_def)
  then show "StrokeLine (px (ps ! i)) (py (ps ! i)) (px (ps ! j)) (py (ps ! j))
        (line_opacity (distance (ps ! i) (ps ! j))) \<in> set (drawConnections ps ops)"
    by (simp add: stroke_def)
next
  assume "0 \<le> d \<and> d \<le> 120"
  then show "\<bar>line_opacity d - (1 - d / 120) * (1 / 5)\<bar> \<le> 1 / 2 ^ 50"
    by (intro line_opacity_close) simp_all
next
  assume "d1 \<le> d2"
  then show "line_opacity d2 \<le> line_opacity d1" by (rule line_opacity_antimono)
next
  assume "0 \<le> d1 \<and> d1 + 1 / 2 ^ 38 \<le> d2 \<and> d2 \<le> 120"
  then show "line_opacity d2 < line_opacity d1"
    by (intro line_opacity_strict) simp_all
next
  show "line_opacity 120 = 0" by (rule line_opacity_120)
next
  assume h: "px a = 10 \<and> py a = 10 \<and> px b = 10 \<and> py b = 50"
  then show d: "distance a b = 40"
    by (intro near_pair_distance) simp_all
  show "drawConnections [a, b] ops = ops @ [StrokeLine 10 10 10 50 (2401919801264265 / 2 ^ 54)]"
    using h by (intro near_pair_lines) simp_all
qed

theorem connection_opacity_witness:
  "distance (near_pair ! 0) (near_pair ! 1) = 40 \<and>
   drawConnections near_pair [] = [StrokeLine 10 10 10 50 (2401919801264265 / 2 ^ 54)] \<and>
   StrokeLine (px (near_pair ! 0)) (py (near_pair ! 0)) (px (near_pair ! 1)) (py (near_pair ! 1))
     (line_opacity (distance (near_pair ! 0) (near_pair ! 1)))
     \<in> set (drawConnections near_pair []) \<and>
   \<bar>distance (near_pair ! 0) (near_pair ! 1) -
      sqrt ((px (near_pair ! 0) - px (near_pair ! 1)) * (px (near_pair ! 0) - px (near_pair ! 1)) +
            (py (near_pair ! 0) - py (near_pair ! 1)) * (py (near_pair ! 0) - py (near_pair ! 1)))\<bar>
     \<le> sqrt ((px (near_pair ! 0) - px (near_pair ! 1)) * (px (near_pair ! 0) - px (near_pair ! 1)) +
             (py (near_pair ! 0) - py (near_pair ! 1)) * (py (near_pair ! 0) - py (near_pair ! 1)))
          / 2 ^ 50 + 1 / 2 ^ 512 \<and>
   \<bar>line_opacity 40 - (1 - 40 / 120) * (1 / 5)\<bar> \<le> 1 / 2 ^ 50 \<and>
   line_opacity 80 \<le> line_opacity 40 \<and>
   line_opacity 80 < line_opacity 40"
proof -
  have n: "near_pair = [near_pair ! 0, near_pair ! 1]"
    by (simp add: near_pair_def)
  have c: "px (near_pair ! 0) = 10 \<and> py (near_pair ! 0) = 10 \<and>
           px (near_pair ! 1) = 10 \<and> py (near_pair ! 1) = 50"
    by (simp add: near_pair_def)
  have b: "\<bar>px (near_pair ! 0) - px (near_pair ! 1)\<bar> \<le> 2 ^ 40 \<and>
           \<bar>py (near_pair ! 0) - py (near_pair ! 1)\<bar> \<le> 2 ^ 40"
    by (simp add: near_pair_def)
  have r0: "(40::real) \<le> 80" by simp
  have r1: "(0::real) \<le> 40 \<and> (40::real) \<le> 120" by simp
  have r2: "(0::real) \<le> 40 \<and> (40::real) + 1 / 2 ^ 38 \<le> 80 \<and> (80::real) \<le> 120" by simp
  note t = connection_opacity[where a = "near_pair ! 0" and b = "near_pair ! 1" and d = 40
      and i = 0 and j = 1 and ps = near_pair and ops = "[]" and ?d1.0 = 40 and ?d2.0 = 80]
  have d: "distance (near_pair ! 0) (near_pair ! 1) = 40"
    using t c by blast
  have "length near_pair = 2" by (simp add: near_pair_def)
  then have len: "(0::nat) < 1 \<and> 1 < length near_pair \<and>
      distance (near_pair ! 0) (near_pair ! 1) < 120"
    by (simp only: d) simp
  have "drawConnections [near_pair ! 0, near_pair ! 1] [] =
      [] @ [StrokeLine 10 10 10 50 (2401919801264265 / 2 ^ 54)]"
    using t c by blast
  then have l: "drawConnections near_pair [] =
      [StrokeLine 10 10 10 50 (2401919801264265 / 2 ^ 54)]"
    using n by simp
  have m: "StrokeLine (px (near_pair ! 0)) (py (near_pair ! 0)) (px (near_pair ! 1))
      (py (near_pair ! 1)) (line_opacity (distance (near_pair ! 0) (near_pair ! 1)))
      \<in> set (drawConnections near_pair [])"
    using t len by blast
  have e: "\<bar>distance (near_pair ! 0) (near_pair ! 1) -
      sqrt ((px (near_pair ! 0) - px (near_pair ! 1)) * (px (near_pair ! 0) - px (near_pair ! 1)) +
            (py (near_pair ! 0) - py (near_pair ! 1)) * (py (near_pair ! 0) - py (near_pair ! 1)))\<bar>
     \<le> sqrt ((px (near_pair ! 0) - px (near_pair ! 1)) * (px (near_pair ! 0) - px (near_pair ! 1)) +
             (py (near_pair ! 0) - py (near_pair ! 1)) * (py (near_pair ! 0) - py (near_pair ! 1)))
          / 2 ^ 50 + 1 / 2 ^ 512"
    using t b by blast
  have o: "\<bar>line_opacity 40 - (1 - 40 / 120) * (1 / 5)\<bar> \<le> 1 / 2 ^ 50"
    using t r1 by blast
  have w: "line_opacity 80 \<le> line_opacity 40"
    using t r0 by blast
  have s: "line_opacity 80 < line_opacity 40"
    using t r2 by blast
  show ?thesis
    using d l m e o w s by blast
qed

text \<open>
  C4 as stated fails at the threshold. The particles at (0, 0) and
  (\<open>120 - 1 / 2 ^ 46\<close>, \<open>7 / 2 ^ 22\<close>) are at a Euclidean distance below 120, but the sum of
  the squares rounds to 14400, the distance computed is exactly 120, and no line is drawn.
\<close>

theorem close_pair_without_line:
  "sqrt ((px (threshold_pair ! 0) - px (threshold_pair ! 1)) *
         (px (threshold_pair ! 0) - px (threshold_pair ! 1)) +
         (py (threshold_pair ! 0) - py (threshold_pair ! 1)) *
         (py (threshold_pair ! 0) - py (threshold_pair ! 1))) < 120 \<and>
   length threshold_pair = 2 \<and>
   drawConnections threshold_pair [] = []"
proof -
  have n: "threshold_pair = [threshold_pair ! 0, threshold_pair ! 1]"
    by (simp add: threshold_pair_def)
  have c: "px (threshold_pair ! 0) = 0" "py (threshold_pair ! 0) = 0"
    "px (threshold_pair ! 1) = 8444249301319679 / 2 ^ 46" "py (threshold_pair ! 1) = 7 / 2 ^ 22"
    by (simp_all add: threshold_pair_def)
  have d: "distance (threshold_pair ! 0) (threshold_pair ! 1) = 120"
    using c by (rule threshold_distance)
  have "drawConnections [threshold_pair ! 0, threshold_pair ! 1] [] = []"
    using d by (simp add: drawConnections_two maxDistance_def)
  then have l: "drawConnections threshold_pair [] = []"
    using n by simp
  have e: "sqrt ((px (threshold_pair ! 0) - px (threshold_pair ! 1)) *
         (px (threshold_pair ! 0) - px (threshold_pair ! 1)) +
         (py (threshold_pair ! 0) - py (threshold_pair ! 1)) *
         (py (threshold_pair ! 0) - py (threshold_pair ! 1))) < 120"
    unfolding c by (rule threshold_euclid)
  have "length threshold_pair = 2" by (simp add: threshold_pair_def)
  then show ?thesis
    using e l by blast
qed

text \<open>
  C4, as the code has it. The lines \<open>drawConnections\<close> adds to the context are, for a list
  of index pairs without repetition, the segments between the two particles of each pair,
  and the set of that list is the set of pairs \<open>i < j\<close> whose computed distance is below
  120: one line for each such pair and no other. When every pair has a computed distance of
  120 or more, nothing is drawn. The computed distance decides as the Euclidean one does
  away from the threshold: a pair at Euclidean distance at most 119.99 is connected, and a
  pair at 120.01 or more (coordinate differences up to \<open>2 ^ 40\<close>) is not.
\<close>

theorem one_line_per_close_pair:
  "distance a b =
     binary64 (sqrt (binary64
       (binary64 (binary64 (px a - px b) * binary64 (px a - px b)) +
        binary64 (binary64 (py a - py b) * binary64 (py a - py b))))) \<and>
   (\<exists>pairs. distinct pairs \<and>
      set pairs = {(i, j). i < j \<and> j < length ps \<and> distance (ps ! i) (ps ! j) < 120} \<and>
      drawConnections ps ops =
        ops @ map (\<lambda>(i, j). StrokeLine (px (ps ! i)) (py (ps ! i)) (px (ps ! j)) (py (ps ! j))
                     (line_opacity (distance (ps ! i) (ps ! j)))) pairs) \<and>
   length (drawConnections ps ops) =
     length ops + card {(i, j). i < j \<and> j < length ps \<and> distance (ps ! i) (ps ! j) < 120} \<and>
   ((\<forall>i j. i < j \<and> j < length ps \<longrightarrow> 120 \<le> distance (ps ! i) (ps ! j)) \<longrightarrow>
      drawConnections ps ops = ops) \<and>
   (sqrt ((px a - px b) * (px a - px b) + (py a - py b) * (py a - py b)) \<le> 11999 / 100 \<longrightarrow>
      distance a b < 120) \<and>
   (\<bar>px a - px b\<bar> \<le> 2 ^ 40 \<and> \<bar>py a - py b\<bar> \<le> 2 ^ 40 \<and>
    12001 / 100 \<le> sqrt ((px a - px b) * (px a - px b) + (py a - py b) * (py a - py b)) \<longrightarrow>
      120 < distance a b)"
proof (intro conjI impI)
  let ?close = "{(i, j). i < j \<and> j < length ps \<and> distance (ps ! i) (ps ! j) < 120}"
  let ?pairs = "concat (map (close_from ps) [0..<length ps])"
  show "distance a b =
     binary64 (sqrt (binary64
       (binary64 (binary64 (px a - px b) * binary64 (px a - px b)) +
        binary64 (binary64 (py a - py b) * binary64 (py a - py b)))))"
    by (simp add: distance_def Let_def)
  have d: "distinct ?pairs" by (rule distinct_close_all)
  have s: "set ?pairs = ?close"
    using set_close_all[of ps] by (simp only: close_pairs_explicit)
  have e: "drawConnections ps ops =
      ops @ map (\<lambda>(i, j). StrokeLine (px (ps ! i)) (py (ps ! i)) (px (ps ! j)) (py (ps ! j))
                   (line_opacity (distance (ps ! i) (ps ! j)))) ?pairs"
    using drawConnections_eq[of ps ops] by (simp only: stroke_explicit)
  show "\<exists>pairs. distinct pairs \<and> set pairs = ?close \<and>
      drawConnections ps ops =
        ops @ map (\<lambda>(i, j). StrokeLine (px (ps ! i)) (py (ps ! i)) (px (ps ! j)) (py (ps ! j))
                     (line_opacity (distance (ps ! i) (ps ! j)))) pairs"
    using d s e by blast
  have "length ?pairs = card ?close"
    using distinct_card[OF d] s by simp
  then show "length (drawConnections ps ops) = length ops + card ?close"
    by (simp add: drawConnections_eq)
  {
    assume far: "\<forall>i j. i < j \<and> j < length ps \<longrightarrow> 120 \<le> distance (ps ! i) (ps ! j)"
    have "\<not> distance (ps ! i) (ps ! j) < 120" if "i < j" "j < length ps" for i j
      using far that by (simp add: not_less)
    then have "?close = {}"
      by auto
    then have "?pairs = []"
      using s by (metis set_empty)
    then show "drawConnections ps ops = ops"
      by (simp add: drawConnections_eq)
  }
  {
    assume "sqrt ((px a - px b) * (px a - px b) + (py a - py b) * (py a - py b)) \<le> 11999 / 100"
    then show "distance a b < 120" by (rule distance_below)
  }
  {
    assume "\<bar>px a - px b\<bar> \<le> 2 ^ 40 \<and> \<bar>py a - py b\<bar> \<le> 2 ^ 40 \<and>
      12001 / 100 \<le> sqrt ((px a - px b) * (px a - px b) + (py a - py b) * (py a - py b))"
    then show "120 < distance a b" by (intro distance_above) simp_all
  }
qed

theorem one_line_per_close_pair_witness:
  "length far_pair = 2 \<and> drawConnections far_pair [] = [] \<and>
   120 < distance (far_pair ! 0) (far_pair ! 1) \<and>
   distance (near_pair ! 0) (near_pair ! 1) < 120 \<and>
   length (drawConnections near_pair []) = 1"
proof -
  have fc: "px (far_pair ! 0) = 10" "py (far_pair ! 0) = 10"
    "px (far_pair ! 1) = 10" "py (far_pair ! 1) = 210"
    by (simp_all add: far_pair_def)
  have fd: "distance (far_pair ! 0) (far_pair ! 1) = 200"
    using fc by (rule far_pair_distance)
  have far: "\<forall>i j. i < j \<and> j < length far_pair \<longrightarrow> 120 \<le> distance (far_pair ! i) (far_pair ! j)"
  proof (intro allI impI)
    fix i j :: nat
    assume "i < j \<and> j < length far_pair"
    then have "i = 0 \<and> j = 1" by (auto simp: far_pair_def)
    then show "120 \<le> distance (far_pair ! i) (far_pair ! j)"
      using fd by simp
  qed
  have f1: "drawConnections far_pair [] = []"
    using one_line_per_close_pair[where ps = far_pair and ops = "[]"] far by blast
  have fe: "\<bar>px (far_pair ! 0) - px (far_pair ! 1)\<bar> \<le> 2 ^ 40 \<and>
      \<bar>py (far_pair ! 0) - py (far_pair ! 1)\<bar> \<le> 2 ^ 40 \<and>
      12001 / 100 \<le> sqrt ((px (far_pair ! 0) - px (far_pair ! 1)) *
         (px (far_pair ! 0) - px (far_pair ! 1)) +
         (py (far_pair ! 0) - py (far_pair ! 1)) * (py (far_pair ! 0) - py (far_pair ! 1)))"
    unfolding fc using sqrt_square_num[of 200] by simp
  have f2: "120 < distance (far_pair ! 0) (far_pair ! 1)"
    using one_line_per_close_pair[where a = "far_pair ! 0" and b = "far_pair ! 1"] fe by blast
  have nc: "px (near_pair ! 0) = 10" "py (near_pair ! 0) = 10"
    "px (near_pair ! 1) = 10" "py (near_pair ! 1) = 50"
    by (simp_all add: near_pair_def)
  have ne: "sqrt ((px (near_pair ! 0) - px (near_pair ! 1)) *
         (px (near_pair ! 0) - px (near_pair ! 1)) +
         (py (near_pair ! 0) - py (near_pair ! 1)) * (py (near_pair ! 0) - py (near_pair ! 1)))
      \<le> 11999 / 100"
    unfolding nc using sqrt_square_num[of 40] by simp
  have n1: "distance (near_pair ! 0) (near_pair ! 1) < 120"
    using one_line_per_close_pair[where a = "near_pair ! 0" and b = "near_pair ! 1"] ne by blast
  have "{(i, j). i < j \<and> j < length near_pair \<and>
      distance (near_pair ! i) (near_pair ! j) < 120} = {(0, 1)}"
  proof -
    have "i = 0 \<and> j = 1" if "i < j" "j < length near_pair" for i j :: nat
      using that by (auto simp: near_pair_def)
    moreover have "(0::nat) < 1 \<and> 1 < length near_pair"
      by (simp add: near_pair_def)
    ultimately show ?thesis
      using n1 by auto
  qed
  then have "card {(i, j). i < j \<and> j < length near_pair \<and>
      distance (near_pair ! i) (near_pair ! j) < 120} = 1"
    by simp
  then have n2: "length (drawConnections near_pair []) = 1"
    using one_line_per_close_pair[where ps = near_pair and ops = "[]"] by simp
  have "length far_pair = 2" by (simp add: far_pair_def)
  then show ?thesis
    using f1 f2 n1 n2 by blast
qed

text \<open>
  C5. The constructor creates \<open>particleCount\<close> particles, and no frame, resize or call
  of \<open>updateColor\<close> changes the length of the array: after any sequence of them the field
  has as many particles as it was built with.
\<close>

theorem particle_count_constant:
  assumes "new_ParticleSystem w cid n = Inr ws0"
  shows "length (particles (snd ws0)) = n \<and>
         length (particles (snd (run es ws0))) = n \<and>
         particleCount (snd (run es ws0)) = n"
  using assms new_ParticleSystem_Inr[OF assms] new_ParticleSystem_count[OF assms]
  by (simp add: length_run particleCount_run)

theorem particle_count_constant_witness:
  "new_ParticleSystem example_world ''particleCanvas'' 1 = Inr example_field \<and>
   length (particles (snd example_field)) = 1 \<and>
   length (particles (snd (run [Frame, Resize 400 300, UpdateColor ''red'', Frame] example_field))) = 1"
  using example_new
    particle_count_constant[OF example_new, of "[Frame, Resize 400 300, UpdateColor ''red'', Frame]"]
  by simp

text \<open>
  C6 as stated fails: on a page that has the buttons but no \<open>particleCanvas\<close>, the
  constructor does not return, it throws, and the start of the page ends with that error.
\<close>

theorem missing_canvas_is_not_silent:
  "document page_without_canvas ''particleCanvas'' = None \<and>
   new_ParticleSystem page_without_canvas ''particleCanvas'' 60 = Inl TypeError \<and>
   DOMContentLoaded page_without_canvas = Inl TypeError"
  by (simp add: new_ParticleSystem_def DOMContentLoaded_def page_without_canvas_def)

text \<open>
  C6, as the code has it. When the document has no element with the identifier given, the
  constructor of \<open>ParticleSystem\<close> throws a \<open>TypeError\<close>: no particle system results.
  The listener of \<open>DOMContentLoaded\<close> does not catch it, so for a missing
  \<open>particleCanvas\<close> the listener ends there and builds no controller.
\<close>

theorem missing_canvas_raises:
  assumes "document w canvasId = None"
  shows "new_ParticleSystem w canvasId n = Inl TypeError \<and>
         (canvasId = ''particleCanvas'' \<longrightarrow> DOMContentLoaded w = Inl TypeError)"
  using assms by (auto simp: new_ParticleSystem_def DOMContentLoaded_def)

theorem missing_canvas_raises_witness:
  "document page_without_canvas ''particleCanvas'' = None \<and>
   new_ParticleSystem page_without_canvas ''particleCanvas'' 80 = Inl TypeError \<and>
   DOMContentLoaded page_without_canvas = Inl TypeError"
proof -
  have d: "document page_without_canvas ''particleCanvas'' = None"
    by (simp add: page_without_canvas_def)
  show ?thesis
    using d missing_canvas_raises[OF d, of 80] by simp
qed

text \<open>
  C7. One call of \<open>update\<close> changes the fields \<open>x\<close> and \<open>y\<close> of a particle and no
  other: the velocity, the radius and the opacity are what they were. Frames, resizes and
  calls of \<open>updateColor\<close> never call \<open>reset\<close>, so along any sequence of them every
  particle of the field keeps its velocity, radius and opacity.
\<close>

theorem update_changes_position_only:
  "update st p = p\<lparr>px := px (update st p), py := py (update st p)\<rparr> \<and>
   speedX (update st p) = speedX p \<and> speedY (update st p) = speedY p \<and>
   psize (update st p) = psize p \<and> opacity (update st p) = opacity p \<and>
   map fixed_attributes (particles (snd (run es ws))) = map fixed_attributes (particles (snd ws))"
  by (simp add: fixed_attributes_run update_speedX update_speedY update_psize update_opacity)
     (simp add: update_def Let_def)




text \<open>
  C9. A resize leaves the particle system as it is, positions included, and writes only the
  width and the height of the system's canvas object in the store. Every particle refers to
  that same object, so each frame that follows, until the next resize, wraps against the new
  dimensions.
\<close>

theorem resize_rebinds_wrap:
  assumes "new_ParticleSystem w cid n = Inr ws0"
    and "run es ws0 = (w1, s1)"
    and "handle (Resize iw ih) (w1, s1) = (w2, s2)"
    and "no_resize es'"
    and "run es' (w2, s2) = (w3, s3)"
  shows "s2 = s1 \<and>
         store w2 (canvas_of s1) = \<lparr>width = iw, height = ih\<rparr> \<and>
         (\<forall>r. r \<noteq> canvas_of s1 \<longrightarrow> store w2 r = store w1 r) \<and>
         particles (animate w3 s3) =
           map (update (\<lambda>r. \<lparr>width = iw, height = ih\<rparr>)) (particles s3)"
proof -
  have s2: "s2 = s1" and w2: "w2 = resizeCanvas (w1\<lparr>innerWidth := iw, innerHeight := ih\<rparr>) s1"
    using assms(3) by auto
  have st2: "store w2 = (store w1)(canvas_of s1 := \<lparr>width = iw, height = ih\<rparr>)"
    by (simp add: w2 store_resizeCanvas)
  have "aliased (snd ws0)"
    using assms(1) new_ParticleSystem_Inr by blast
  then have "aliased (snd (run es ws0))" by (rule aliased_run)
  then have "aliased s2" by (simp add: assms(2) s2)
  then have "aliased (snd (run es' (w2, s2)))" by (intro aliased_run) simp
  then have al3: "aliased s3" by (simp add: assms(5))
  have c3: "canvas_of s3 = canvas_of s1"
    using canvas_of_run[of es' "(w2, s2)"] assms(5) s2 by simp
  have st3: "store w3 = store w2"
    using store_run_no_resize[OF assms(4), of "(w2, s2)"] by (simp add: assms(5))
  have "update (store w3) p = update (\<lambda>r. \<lparr>width = iw, height = ih\<rparr>) p"
    if "p \<in> set (particles s3)" for p
  proof -
    have "pcanvas p = canvas_of s1"
      using al3 that c3 by (simp add: aliased_def list_all_iff)
    then show ?thesis
      by (intro update_cong_store) (simp add: st3 st2)
  qed
  then have "particles (animate w3 s3) =
      map (update (\<lambda>r. \<lparr>width = iw, height = ih\<rparr>)) (particles s3)"
    by (simp add: particles_animate)
  then show ?thesis
    by (simp add: s2 st2)
qed

theorem resize_rebinds_wrap_witness:
  "new_ParticleSystem example_world ''particleCanvas'' 1 = Inr example_field \<and>
   run [] example_field = (fst example_field, snd example_field) \<and>
   px (hd (particles (snd (run [Resize 400 300] example_field)))) = 800 \<and>
   store (fst (run [Resize 400 300] example_field)) 0 = \<lparr>width = 400, height = 300\<rparr> \<and>
   px (hd (particles (snd (run [Resize 400 300, Frame] example_field)))) = 0"
proof -
  let ?w2 = "resizeCanvas ((fst example_field)\<lparr>innerWidth := 400, innerHeight := 300\<rparr>)
               (snd example_field)"
  have "particles (animate ?w2 (snd example_field)) =
      map (update (\<lambda>r. \<lparr>width = 400, height = 300\<rparr>)) (particles (snd example_field))"
    using resize_rebinds_wrap[OF example_new, of "[]" "fst example_field" "snd example_field"
        400 300 ?w2 "snd example_field" "[]" ?w2 "snd example_field"]
    by (simp add: no_resize_def handle_proj)
  then have "px (hd (particles (snd (run [Resize 400 300, Frame] example_field)))) = 0"
    using binary64_dyadic[of 3199 2]
    by (simp add: handle_proj example_field_value update_px)
  then show ?thesis
    using example_new by (simp only: example_resized example_field_value) simp
qed

text \<open>
  C10. In every state the theme controller can reach, the applied theme is
  \<open>'romantic'\<close> or \<open>'vibrant'\<close>, one \<open>toggle\<close> changes it to the other of the two, and
  two give back the theme and the controller that were there.
\<close>

theorem toggle_twice_restores_theme:
  assumes "reachable tp"
  shows "(currentTheme (snd tp) = ''romantic'' \<or> currentTheme (snd tp) = ''vibrant'') \<and>
         currentTheme (snd (toggle tp)) \<noteq> currentTheme (snd tp) \<and>
         (currentTheme (snd (toggle tp)) = ''romantic'' \<or>
          currentTheme (snd (toggle tp)) = ''vibrant'') \<and>
         currentTheme (snd (toggle (toggle tp))) = currentTheme (snd tp) \<and>
         data_theme (snd (toggle (toggle tp))) = Some (currentTheme (snd tp)) \<and>
         fst (toggle (toggle tp)) = fst tp"
proof -
  have inv: "themes (fst tp) = [''romantic'', ''vibrant'']" "currentThemeIndex (fst tp) < 2"
    "currentTheme (snd tp) = themes (fst tp) ! currentThemeIndex (fst tp)"
    using reachable_invariant[OF assms] by simp_all
  have inv': "themes (fst (toggle tp)) = [''romantic'', ''vibrant'']"
    using reachable_invariant[OF reachable.click[OF assms]] by simp
  have "currentThemeIndex (fst tp) = 0 \<or> currentThemeIndex (fst tp) = 1"
    using inv(2) by auto
  then show ?thesis
  proof
    assume z: "currentThemeIndex (fst tp) = 0"
    show ?thesis
      by (simp add: toggle_fields[OF inv'] toggle_fields[OF inv(1)] inv z)
  next
    assume o: "currentThemeIndex (fst tp) = 1"
    show ?thesis
      by (simp add: toggle_fields[OF inv'] toggle_fields[OF inv(1)] inv o)
  qed
qed

theorem toggle_twice_restores_theme_witness:
  "reachable (start_controller, start_page) \<and>
   currentTheme (snd (toggle (start_controller, start_page))) = ''vibrant'' \<and>
   currentTheme (snd (toggle (toggle (start_controller, start_page)))) = ''romantic''"
  using start_reachable toggle_twice_restores_theme[OF start_reachable]
  by (auto simp: start_page_def)

end
